theory Spec2Isabelle
  imports Complex_Main
begin

section \<open>Python values and errors\<close>

text \<open>
  The exceptions of \<^verbatim>\<open>alaska/predict_from_model.py\<close> that a caller can observe.
  \<open>AssertionError\<close> is what the failed \<^verbatim>\<open>assert\<close> of \<^verbatim>\<open>eval_bs_batch\<close> raises (the
  specification calls it InvalidBatchSize); \<open>ValueError\<close> is the "math domain error" of
  \<^verbatim>\<open>math.log\<close>; \<open>UnboundLocalError\<close> (a subclass of NameError) is the read of a local
  variable that no executed statement has bound.
\<close>

datatype py_error =
  AssertionError | IndexError | ValueError | ZeroDivisionError | UnboundLocalError | StopIteration

definition then_do :: "py_error + 'a \<Rightarrow> ('a \<Rightarrow> py_error + 'b) \<Rightarrow> py_error + 'b" where
  "then_do r f = (case r of Inl e \<Rightarrow> Inl e | Inr x \<Rightarrow> f x)"

text \<open>
  \<^verbatim>\<open>xs[i]\<close> on a Python list: a negative index counts from the end, an index out of
  range raises IndexError.
\<close>

definition list_getitem :: "'a list \<Rightarrow> int \<Rightarrow> py_error + 'a" where
  "list_getitem xs i =
     (if 0 \<le> i \<and> i < int (length xs) then Inr (xs ! nat i)
      else if i < 0 \<and> - int (length xs) \<le> i then Inr (xs ! nat (int (length xs) + i))
      else Inl IndexError)"

text \<open>
  A local variable is bound or not: \<open>None\<close> is "no assignment has run", and reading it
  raises UnboundLocalError.
\<close>

definition read_local :: "'a option \<Rightarrow> py_error + 'a" where
  "read_local v = (case v of None \<Rightarrow> Inl UnboundLocalError | Some x \<Rightarrow> Inr x)"

text \<open>
  \<^verbatim>\<open>str.split()\<close> with no argument: the maximal runs of non-whitespace characters, in
  order. Characters are bytes here, so the whitespace is the ASCII one
  (HT, LF, VT, FF, CR, FS, GS, RS, US and the space).
\<close>

definition isspace :: "char \<Rightarrow> bool" where
  "isspace c = (let n = (of_char c :: nat) in (9 \<le> n \<and> n \<le> 13) \<or> (28 \<le> n \<and> n \<le> 32))"

fun split_from :: "string \<Rightarrow> string \<Rightarrow> string list" where
  "split_from word [] = (if word = [] then [] else [word])"
| "split_from word (c # cs) =
     (if isspace c then (if word = [] then split_from [] cs else word # split_from [] cs)
      else split_from (word @ [c]) cs)"

definition str_split :: "string \<Rightarrow> string list" where
  "str_split s = split_from [] s"

text \<open>
  \<^verbatim>\<open>math.log(x, base)\<close>: the quotient of two natural logarithms; each raises ValueError
  outside its domain, and base 1 divides by zero. Floating-point numbers are idealised as
  reals (no rounding, no infinities, no NaN), except for the one product whose rounding
  decides how many examples \<^verbatim>\<open>eval_bs\<close> takes, which is a parameter there.
\<close>

definition math_log :: "real \<Rightarrow> real \<Rightarrow> py_error + real" where
  "math_log x b =
     (if x \<le> 0 then Inl ValueError
      else if b \<le> 0 then Inl ValueError
      else if b = 1 then Inl ZeroDivisionError
      else Inr (log b x))"

text \<open>\<^verbatim>\<open>int(x)\<close> on a float truncates towards zero.\<close>

definition py_int :: "real \<Rightarrow> int" where
  "py_int x = (if 0 \<le> x then \<lfloor>x\<rfloor> else \<lceil>x\<rceil>)"

text \<open>\<^verbatim>\<open>range(a, b)\<close>: the integers from \<open>a\<close> up to, not including, \<open>b\<close>.\<close>

definition py_range :: "int \<Rightarrow> int \<Rightarrow> int list" where
  "py_range a b = [a..b - 1]"

text \<open>Truthiness of an optional string: \<^verbatim>\<open>None\<close> and the empty string are false.\<close>

definition truthy :: "string option \<Rightarrow> bool" where
  "truthy v = (case v of None \<Rightarrow> False | Some s \<Rightarrow> s \<noteq> [])"


section \<open>The collaborators of the module\<close>

text \<open>
  Modelled from the spec: the class \<^verbatim>\<open>Vocab\<close> (imported from \<^verbatim>\<open>.utils\<close>, not among the
  sources). The specification describes it as an ordered, index-addressable set of base
  tokens with a reserved end-of-sequence index; the module uses \<^verbatim>\<open>len(vocab)\<close>,
  \<^verbatim>\<open>vocab[word_idx]\<close> and \<^verbatim>\<open>vocab.EOS\<close>. Token indices are vocabulary indices, hence
  natural numbers. Indexing outside the base range is an IndexError.
\<close>

record vocab =
  vocab_tokens :: "string list"
  EOS :: nat

definition vocab_len :: "vocab \<Rightarrow> nat" where
  "vocab_len v = length (vocab_tokens v)"

definition vocab_getitem :: "vocab \<Rightarrow> nat \<Rightarrow> py_error + string" where
  "vocab_getitem v word_idx =
     (if word_idx < vocab_len v then Inr (vocab_tokens v ! word_idx) else Inl IndexError)"

text \<open>
  Modelled from the spec: the class \<^verbatim>\<open>OOVDict\<close> (from \<^verbatim>\<open>.utils\<close>): its dictionary
  \<^verbatim>\<open>index2word\<close> maps (example index within the batch, extended-vocabulary index) to the
  surface word of that example's source text.
\<close>

record oovdict =
  index2word :: "nat \<times> nat \<Rightarrow> string option"

text \<open>
  A two-dimensional tensor of token indices, by its shape and its entries;
  \<^verbatim>\<open>t.transpose(0, 1).tolist()\<close> lists it column by column.
\<close>

record tensor =
  dim0 :: nat
  dim1 :: nat
  entry :: "nat \<Rightarrow> nat \<Rightarrow> nat"

definition transpose_tolist :: "tensor \<Rightarrow> nat list list" where
  "transpose_tolist t = map (\<lambda>j. map (\<lambda>i. entry t i j) [0..<dim0 t]) [0..<dim1 t]"

text \<open>
  Modelled from the spec: a hypothesis of the beam search (class \<^verbatim>\<open>Hypothesis\<close> of
  \<^verbatim>\<open>.model\<close>), with the two attributes the module reads: the token indices produced and
  the length-normalised cumulative log-probability. The trained model
  (\<^verbatim>\<open>Seq2Seq\<close>) is an external collaborator: its \<^verbatim>\<open>beam_search\<close> is a parameter, which
  returns the ranked hypotheses, best first.
\<close>

record hypothesis =
  tokens :: "nat list"
  avg_log_prob :: real

record seq2seq =
  beam_search ::
    "tensor \<Rightarrow> nat list option \<Rightarrow> nat \<Rightarrow> nat \<Rightarrow> nat \<Rightarrow> nat option \<Rightarrow> bool \<Rightarrow> hypothesis list"

text \<open>
  Modelled from the spec: \<^verbatim>\<open>Batch\<close> and its examples (from \<^verbatim>\<open>.utils\<close>): the examples
  with their source tokens, the encoded input, the input lengths, the size of the extended
  vocabulary and the OOV dictionary of the batch.
\<close>

record example =
  src :: "string list"

record batch =
  examples :: "example list"
  input_tensor :: tensor
  input_lengths :: "nat list"
  ext_vocab_size :: nat
  oov_dict :: oovdict

text \<open>
  Modelled from the spec: \<^verbatim>\<open>Dataset\<close> (from \<^verbatim>\<open>.utils\<close>) with its examples \<^verbatim>\<open>pairs\<close> and
  its \<^verbatim>\<open>generator(batch_size, src_vocab, tgt_vocab, ext_vocab)\<close>, the lazy sequence of
  batches that \<^verbatim>\<open>next\<close> pulls from; an exhausted generator raises StopIteration.
  \<^verbatim>\<open>Params\<close> (from \<^verbatim>\<open>.params\<close>) holds the configuration; the four options that
  \<^verbatim>\<open>eval_bs\<close> passes on under the names of \<^verbatim>\<open>eval_bs_batch\<close>'s own arguments carry the
  prefix \<open>param_\<close> here.
\<close>

record dataset =
  pairs :: "example list"
  generator :: "nat \<Rightarrow> vocab \<Rightarrow> vocab option \<Rightarrow> bool \<Rightarrow> batch list"

record params =
  pointer :: bool
  test_sample_ratio :: real
  test_save_results :: bool
  model_path_prefix :: "string option"
  param_pack_seq :: bool
  param_beam_size :: nat
  param_min_out_len :: nat
  param_max_out_len :: "nat option"
  out_len_in_words :: bool

text \<open>
  What the module does to the world outside its return values: the number of calls of the
  model's \<^verbatim>\<open>beam_search\<close>, the model's inference mode (\<^verbatim>\<open>model.eval()\<close>) and the archives
  opened for writing (\<^verbatim>\<open>tarfile.open\<close>). Failures of the file system are not modelled.
\<close>

record world =
  beam_search_calls :: nat
  eval_mode :: bool
  opened :: "string list"

datatype tarfile = TarFile string


section \<open>decode\_batch\_output\<close>

text \<open>
  The argument is a list of index sequences, or a tensor that is transposed and listed
  first (the \<^verbatim>\<open>isinstance\<close> test).
\<close>

datatype decoded_tokens = TokenList "nat list list" | TokenTensor tensor

definition token_lists :: "decoded_tokens \<Rightarrow> nat list list" where
  "token_lists decoded_tokens =
     (case decoded_tokens of TokenList docs \<Rightarrow> docs | TokenTensor t \<Rightarrow> transpose_tolist t)"

text \<open>The body of the inner loop up to the \<^verbatim>\<open>append\<close>: one index to its word.\<close>

definition lookup_word :: "vocab \<Rightarrow> oovdict \<Rightarrow> nat \<Rightarrow> nat \<Rightarrow> py_error + string" where
  "lookup_word v oov i word_idx =
     (if word_idx \<ge> vocab_len v then
        Inr (case index2word oov (i, word_idx) of None \<Rightarrow> ''<UNK>'' | Some word \<Rightarrow> word)
      else vocab_getitem v word_idx)"

text \<open>The inner loop over one sequence, with its \<^verbatim>\<open>break\<close> after the end-of-sequence index.\<close>

fun decode_doc :: "vocab \<Rightarrow> oovdict \<Rightarrow> nat \<Rightarrow> nat list \<Rightarrow> string list \<Rightarrow> py_error + string list" where
  "decode_doc v oov i [] decoded_doc = Inr decoded_doc"
| "decode_doc v oov i (word_idx # doc) decoded_doc =
     (case lookup_word v oov i word_idx of
        Inl e \<Rightarrow> Inl e
      | Inr word \<Rightarrow>
          (if word_idx = EOS v then Inr (decoded_doc @ [word])
           else decode_doc v oov i doc (decoded_doc @ [word])))"

text \<open>The outer loop over \<^verbatim>\<open>enumerate(decoded_tokens)\<close>.\<close>

fun decode_docs ::
  "vocab \<Rightarrow> oovdict \<Rightarrow> nat \<Rightarrow> nat list list \<Rightarrow> string list list \<Rightarrow> py_error + string list list" where
  "decode_docs v oov i [] decoded_batch = Inr decoded_batch"
| "decode_docs v oov i (doc # docs) decoded_batch =
     (case decode_doc v oov i doc [] of
        Inl e \<Rightarrow> Inl e
      | Inr decoded_doc \<Rightarrow> decode_docs v oov (Suc i) docs (decoded_batch @ [decoded_doc]))"

definition decode_batch_output ::
  "decoded_tokens \<Rightarrow> vocab \<Rightarrow> oovdict \<Rightarrow> py_error + string list list" where
  "decode_batch_output decoded_tokens v oov = decode_docs v oov 0 (token_lists decoded_tokens) []"


section \<open>eval\_bs\_batch\<close>

text \<open>
  Lines 103 to 107: the sequences to decode and the binding of \<^verbatim>\<open>probability\<close>, which
  only the \<^verbatim>\<open>best_only\<close> branch assigns.
\<close>

definition select_hypotheses ::
  "bool \<Rightarrow> hypothesis list \<Rightarrow> py_error + (nat list list \<times> real option)" where
  "select_hypotheses best_only hypotheses =
     (if best_only then
        then_do (list_getitem hypotheses 0) (\<lambda>h.
        then_do (math_log (- avg_log_prob h) 10) (\<lambda>probability.
        Inr ([tokens h], Some probability)))
      else Inr (map tokens hypotheses, None))"

text \<open>
  Lines 109 to 114: \<^verbatim>\<open>predicted\<close>, a string or \<^verbatim>\<open>None\<close>. \<^verbatim>\<open>format_tokens\<close> (from
  \<^verbatim>\<open>.utils\<close>) is an external pure function from a token sequence to one string.
\<close>

definition predicted_label ::
  "(string list \<Rightarrow> string) \<Rightarrow> bool \<Rightarrow> string list list \<Rightarrow> py_error + string option" where
  "predicted_label format_tokens details decoded_batch =
     (if details then
        then_do (list_getitem decoded_batch 0) (\<lambda>decoded.
        let predict_lst = str_split (format_tokens decoded) in
        then_do (list_getitem predict_lst 0) (\<lambda>first.
        then_do (list_getitem predict_lst 1) (\<lambda>second.
        Inr (Some (first @ '' '' @ second)))))
      else Inr None)"

text \<open>
  Lines 115 and 116: the binding of \<^verbatim>\<open>mnem\<close>, assigned under \<^verbatim>\<open>if details\<close> only
  (\<open>None\<close> is "not bound").
\<close>

definition mnemonic ::
  "(string list \<Rightarrow> string) \<Rightarrow> bool \<Rightarrow> batch \<Rightarrow> py_error + string option" where
  "mnemonic format_tokens details b =
     (if details then
        then_do (list_getitem (examples b) 0) (\<lambda>ex.
        then_do (list_getitem (str_split (format_tokens (src ex))) (- 1)) (\<lambda>mnem.
        Inr (Some mnem)))
      else Inr None)"

definition eval_bs_batch ::
  "(string list \<Rightarrow> string) \<Rightarrow> batch \<Rightarrow> seq2seq \<Rightarrow> vocab \<Rightarrow> bool \<Rightarrow> nat \<Rightarrow> nat \<Rightarrow> nat option \<Rightarrow>
   bool \<Rightarrow> bool \<Rightarrow> bool \<Rightarrow> world \<Rightarrow> (py_error + (string option \<times> string \<times> real)) \<times> world" where
  "eval_bs_batch format_tokens b model v pack_seq beam_size min_out_len max_out_len
     len_in_words best_only details s =
     (if length (examples b) \<noteq> 1 then (Inl AssertionError, s)
      else
        let hypotheses =
              beam_search model (input_tensor b)
                (if pack_seq then Some (input_lengths b) else None)
                (ext_vocab_size b) beam_size min_out_len max_out_len len_in_words;
            s' = s\<lparr>beam_search_calls := Suc (beam_search_calls s)\<rparr>
        in (then_do (select_hypotheses best_only hypotheses) (\<lambda>(to_decode, probability).
            then_do (decode_batch_output (TokenList to_decode) v (oov_dict b)) (\<lambda>decoded_batch.
            then_do (predicted_label format_tokens details decoded_batch) (\<lambda>predicted.
            then_do (mnemonic format_tokens details b) (\<lambda>mnem.
            then_do (read_local mnem) (\<lambda>mnem_value.
            then_do (read_local probability) (\<lambda>probability_value.
            Inr (predicted, mnem_value, probability_value))))))), s'))"


section \<open>eval\_bs\<close>

type_synonym outputs = "(string \<Rightarrow> string option) \<times> (string \<Rightarrow> real option)"

text \<open>Lines 149 to 151: the result of one example enters both mappings, or neither.\<close>

definition record_prediction :: "outputs \<Rightarrow> string option \<times> string \<times> real \<Rightarrow> outputs" where
  "record_prediction out r =
     (case (out, r) of ((output, prob_output), (predicted, mnem, prob)) \<Rightarrow>
        (if truthy predicted then (output(mnem \<mapsto> the predicted), prob_output(mnem \<mapsto> prob))
         else (output, prob_output)))"

text \<open>
  The loop over \<^verbatim>\<open>range(1, n_samples + 1)\<close>. Each round pulls a batch from the generator,
  evaluates the arguments of the call (\<^verbatim>\<open>result_file is not None\<close> reads the local
  \<^verbatim>\<open>result_file\<close>, bound to an open archive or not bound at all), calls
  \<^verbatim>\<open>eval_bs_batch\<close> with its default \<^verbatim>\<open>best_only=True\<close>, and records the result.
\<close>

fun eval_bs_loop ::
  "(string list \<Rightarrow> string) \<Rightarrow> seq2seq \<Rightarrow> vocab \<Rightarrow> params \<Rightarrow> tarfile option \<Rightarrow>
   int list \<Rightarrow> batch list \<Rightarrow> outputs \<Rightarrow> world \<Rightarrow> (py_error + outputs) \<times> world" where
  "eval_bs_loop format_tokens model v p result_file [] test_gen out s = (Inr out, s)"
| "eval_bs_loop format_tokens model v p result_file (n # rounds) test_gen out s =
     (case test_gen of
        [] \<Rightarrow> (Inl StopIteration, s)
      | b # test_gen' \<Rightarrow>
          (case read_local result_file of
             Inl e \<Rightarrow> (Inl e, s)
           | Inr f \<Rightarrow>
               (case eval_bs_batch format_tokens b model v (param_pack_seq p) (param_beam_size p)
                       (param_min_out_len p) (param_max_out_len p) (out_len_in_words p) True True s of
                  (Inl e, s') \<Rightarrow> (Inl e, s')
                | (Inr r, s') \<Rightarrow>
                    eval_bs_loop format_tokens model v p result_file rounds test_gen'
                      (record_prediction out r) s')))"

text \<open>
  The sample count is \<^verbatim>\<open>int(params.test_sample_ratio * len(test_set.pairs))\<close>. The product is
  a floating-point product, and its rounding decides the count (the float nearest to one
  third, times 3, is exactly 1.0), so the product as the interpreter computes it is a
  parameter, \<open>float_mul\<close>, about which nothing is assumed. \<^verbatim>\<open>get_data_path\<close> (from
  \<^verbatim>\<open>.get_data_path\<close>) is an external function from a file name to a path.
\<close>

definition eval_bs ::
  "(string list \<Rightarrow> string) \<Rightarrow> (string \<Rightarrow> string) \<Rightarrow> (real \<Rightarrow> real \<Rightarrow> real) \<Rightarrow> dataset \<Rightarrow> vocab \<Rightarrow>
   seq2seq \<Rightarrow> params \<Rightarrow> world \<Rightarrow> (py_error + outputs) \<times> world" where
  "eval_bs format_tokens get_data_path float_mul test_set v model p s =
     (let test_gen = generator test_set 1 v None (if pointer p then True else False);
          n_samples = py_int (float_mul (test_sample_ratio p) (real (length (pairs test_set))));
          save_path = get_data_path ''results.tgz'';
          opening = test_save_results p \<and> truthy (model_path_prefix p);
          result_file = (if opening then Some (TarFile save_path) else None);
          s1 = (if opening then s\<lparr>opened := opened s @ [save_path]\<rparr> else s);
          s2 = s1\<lparr>eval_mode := True\<rparr>
      in eval_bs_loop format_tokens model v p result_file (py_range 1 (n_samples + 1)) test_gen
           (Map.empty, Map.empty) s2)"


section \<open>Auxiliary definitions for the statements\<close>

text \<open>
  The resolution of one index as the specification words it: the base-vocabulary token
  inside the base range, otherwise the entry of the OOV dictionary for the example and the
  index, otherwise the unknown-token string. It is compared with \<open>lookup_word\<close> below.
\<close>

definition spec_resolve :: "vocab \<Rightarrow> oovdict \<Rightarrow> nat \<Rightarrow> nat \<Rightarrow> string" where
  "spec_resolve v oov i w =
     (if w < vocab_len v then vocab_tokens v ! w
      else (case index2word oov (i, w) of None \<Rightarrow> ''<UNK>'' | Some word \<Rightarrow> word))"

text \<open>The prefix of a sequence up to and including the first occurrence of \<open>eos\<close>.\<close>

fun through_EOS :: "nat \<Rightarrow> nat list \<Rightarrow> nat list" where
  "through_EOS eos [] = []"
| "through_EOS eos (w # ws) = (if w = eos then [w] else w # through_EOS eos ws)"


section \<open>Example inputs\<close>

text \<open>
  A vocabulary with the four reserved tokens and the two words of a label, and an OOV
  dictionary that knows one source word of example 0.
\<close>

definition vocab0 :: vocab where
  "vocab0 = \<lparr>vocab_tokens = [''<PAD>'', ''<SOS>'', ''<EOS>'', ''<UNK>'', ''GAMMA'', ''RAY''], EOS = 2\<rparr>"

definition oov0 :: oovdict where
  "oov0 = \<lparr>index2word = [(0, 6) \<mapsto> ''DEPTH'']\<rparr>"

text \<open>
  \<^verbatim>\<open>sep.join(tokens)\<close>, and with it one possible \<^verbatim>\<open>format_tokens\<close>: the tokens without
  the four reserved ones, joined by single spaces.
\<close>

fun str_join :: "string \<Rightarrow> string list \<Rightarrow> string" where
  "str_join sep [] = []"
| "str_join sep [t] = t"
| "str_join sep (t # ts) = t @ sep @ str_join sep ts"

definition format_tokens0 :: "string list \<Rightarrow> string" where
  "format_tokens0 ts =
     str_join '' '' (filter (\<lambda>t. t \<noteq> ''<PAD>'' \<and> t \<noteq> ''<SOS>'' \<and> t \<noteq> ''<EOS>'' \<and> t \<noteq> ''<UNK>'') ts)"

text \<open>
  Batches of one example whose source ends in the mnemonic \<open>FT\<close> or \<open>GR\<close>, a batch of two
  examples, and hypotheses that decode to a label of two words.
\<close>

definition tensor0 :: tensor where
  "tensor0 = \<lparr>dim0 = 2, dim1 = 1, entry = (\<lambda>i j. 6 + i)\<rparr>"

definition batch0 :: batch where
  "batch0 = \<lparr>examples = [\<lparr>src = [''DEPTH'', ''FT'']\<rparr>], input_tensor = tensor0,
              input_lengths = [2], ext_vocab_size = 8, oov_dict = oov0\<rparr>"

definition batch_pair :: batch where
  "batch_pair = batch0\<lparr>examples := [\<lparr>src = [''DEPTH'', ''FT'']\<rparr>, \<lparr>src = [''GR'']\<rparr>]\<rparr>"

definition batch_sonic :: batch where
  "batch_sonic = batch0\<lparr>examples := [\<lparr>src = [''SONIC'', ''FT'']\<rparr>], ext_vocab_size := 7,
                          oov_dict := \<lparr>index2word = [(0, 6) \<mapsto> ''SONIC'']\<rparr>\<rparr>"

definition batch_gr :: batch where
  "batch_gr = batch0\<lparr>examples := [\<lparr>src = [''GR'']\<rparr>]\<rparr>"

definition gamma_ray :: hypothesis where
  "gamma_ray = \<lparr>tokens = [4, 5, 2], avg_log_prob = - (1 / 100)\<rparr>"

text \<open>
  Stand-ins for the trained model: one that returns the same hypotheses for every input, and
  one whose answer depends on the size of the extended vocabulary.
\<close>

definition model_of :: "hypothesis list \<Rightarrow> seq2seq" where
  "model_of hyps = \<lparr>beam_search = (\<lambda>input lengths ext beam min_len max_len in_words. hyps)\<rparr>"

definition model_by_ext :: seq2seq where
  "model_by_ext =
     \<lparr>beam_search = (\<lambda>input lengths ext beam min_len max_len in_words.
        if ext = 7 then [\<lparr>tokens = [6, 5, 2], avg_log_prob = - 10\<rparr>] else [gamma_ray])\<rparr>"

text \<open>
  A product without rounding, an initial world, a dataset whose generator yields the given
  batches, and a configuration that saves its results.
\<close>

definition exact_mul :: "real \<Rightarrow> real \<Rightarrow> real" where
  "exact_mul x y = x * y"

definition world0 :: world where
  "world0 = \<lparr>beam_search_calls = 0, eval_mode = False, opened = []\<rparr>"

definition dataset_of :: "batch list \<Rightarrow> dataset" where
  "dataset_of batches =
     \<lparr>pairs = concat (map examples batches), generator = (\<lambda>batch_size src_vocab tgt_vocab ext. batches)\<rparr>"

definition params0 :: params where
  "params0 = \<lparr>pointer = True, test_sample_ratio = 1, test_save_results = True,
               model_path_prefix = Some ''checkpoints/m05'', param_pack_seq = True, param_beam_size = 4,
               param_min_out_len = 1, param_max_out_len = None, out_len_in_words = True\<rparr>"


section \<open>Properties of decode\_batch\_output\<close>

lemma lookup_word_resolve: "lookup_word v oov i w = Inr (spec_resolve v oov i w)"
  by (simp add: lookup_word_def spec_resolve_def vocab_getitem_def)

lemma decode_doc_through:
  "decode_doc v oov i doc acc = Inr (acc @ map (spec_resolve v oov i) (through_EOS (EOS v) doc))"
  by (induction doc arbitrary: acc) (simp_all add: lookup_word_resolve)

lemma decode_docs_through:
  "decode_docs v oov i docs acc =
     Inr (acc @ map (\<lambda>(j, doc). map (spec_resolve v oov j) (through_EOS (EOS v) doc)) (enumerate i docs))"
  by (induction docs arbitrary: i acc) (simp_all add: decode_doc_through)

lemma decode_batch_output_through:
  "decode_batch_output dt v oov =
     Inr (map (\<lambda>(j, doc). map (spec_resolve v oov j) (through_EOS (EOS v) doc)) (enumerate 0 (token_lists dt)))"
  by (simp add: decode_batch_output_def decode_docs_through)

lemma through_EOS_first:
  "k < length doc \<Longrightarrow> doc ! k = eos \<Longrightarrow> (\<forall>j<k. doc ! j \<noteq> eos) \<Longrightarrow> through_EOS eos doc = take (Suc k) doc"
proof (induction doc arbitrary: k)
  case Nil
  then show ?case by simp
next
  case (Cons w ws)
  show ?case
  proof (cases k)
    case 0
    with Cons.prems show ?thesis by simp
  next
    case (Suc k')
    with Cons.prems have "w \<noteq> eos" by auto
    moreover have "through_EOS eos ws = take (Suc k') ws"
      using Cons.prems Suc by (intro Cons.IH) auto
    ultimately show ?thesis using Suc by simp
  qed
qed

lemma through_EOS_none: "eos \<notin> set doc \<Longrightarrow> through_EOS eos doc = doc"
  by (induction doc) auto

lemma through_EOS_prefix: "through_EOS eos doc = take (length (through_EOS eos doc)) doc"
  by (induction doc) auto

lemma through_EOS_length: "length (through_EOS eos doc) \<le> length doc"
  by (induction doc) auto

lemma through_EOS_nth: "j < length (through_EOS eos doc) \<Longrightarrow> through_EOS eos doc ! j = doc ! j"
  by (metis through_EOS_prefix nth_take)

text \<open>
  Claim C3. For every sequence of token indices that contains the end-of-sequence index,
  with its first occurrence at position \<open>k\<close>, \<open>decode_batch_output\<close> returns for that
  sequence exactly the first \<open>k + 1\<close> tokens converted to strings: the terminator is
  included and nothing after it appears. A sequence without the end-of-sequence index is
  converted in full. The call never fails, and returns one decoded sequence per input
  sequence.
\<close>

theorem decode_batch_output_stops_at_EOS:
  assumes "i < length (token_lists dt)" and "token_lists dt ! i = doc"
  shows "\<exists>decoded_batch. decode_batch_output dt v oov = Inr decoded_batch \<and>
           length decoded_batch = length (token_lists dt) \<and>
           (\<forall>k. k < length doc \<and> doc ! k = EOS v \<and> (\<forall>j<k. doc ! j \<noteq> EOS v) \<longrightarrow>
              map Inr (decoded_batch ! i) = map (lookup_word v oov i) (take (Suc k) doc)) \<and>
           (EOS v \<notin> set doc \<longrightarrow> map Inr (decoded_batch ! i) = map (lookup_word v oov i) doc)"
proof -
  let ?out = "map (\<lambda>(j, d). map (spec_resolve v oov j) (through_EOS (EOS v) d)) (enumerate 0 (token_lists dt))"
  have key: "map Inr (?out ! i) = map (lookup_word v oov i) (through_EOS (EOS v) doc)"
    using assms by (simp add: nth_enumerate_eq lookup_word_resolve)
  have "decode_batch_output dt v oov = Inr ?out"
    by (rule decode_batch_output_through)
  moreover have "length ?out = length (token_lists dt)" by simp
  moreover have "map Inr (?out ! i) = map (lookup_word v oov i) (take (Suc k) doc)"
    if "k < length doc \<and> doc ! k = EOS v \<and> (\<forall>j<k. doc ! j \<noteq> EOS v)" for k
  proof -
    from that have cut: "through_EOS (EOS v) doc = take (Suc k) doc"
      by (intro through_EOS_first) auto
    show ?thesis unfolding key cut by (rule refl)
  qed
  moreover have "map Inr (?out ! i) = map (lookup_word v oov i) doc" if "EOS v \<notin> set doc"
  proof -
    from that have whole: "through_EOS (EOS v) doc = doc"
      by (rule through_EOS_none)
    show ?thesis unfolding key whole by (rule refl)
  qed
  ultimately show ?thesis by blast
qed

theorem decode_batch_output_stops_at_EOS_witness:
  "decode_batch_output (TokenList [[4, 5, 2, 4, 6], [6, 7, 5]]) vocab0 oov0 =
     Inr [[''GAMMA'', ''RAY'', ''<EOS>''], [''<UNK>'', ''<UNK>'', ''RAY'']]"
proof -
  let ?dt = "TokenList [[4, 5, 2, 4, 6], [6, 7, 5]]"
  have docs: "token_lists ?dt = [[4, 5, 2, 4, 6], [6, 7, 5]]"
    by (simp add: token_lists_def)
  have first: "(0::nat) < length (token_lists ?dt)" and second: "(1::nat) < length (token_lists ?dt)"
    by (simp_all add: docs)
  obtain out where out: "decode_batch_output ?dt vocab0 oov0 = Inr out"
    and len: "length out = 2"
    and cut: "\<And>k. k < length [4, 5, 2, 4, 6::nat] \<and> [4, 5, 2, 4, 6::nat] ! k = EOS vocab0 \<and>
                (\<forall>j<k. [4, 5, 2, 4, 6::nat] ! j \<noteq> EOS vocab0) \<Longrightarrow>
              map Inr (out ! 0) = map (lookup_word vocab0 oov0 0) (take (Suc k) [4, 5, 2, 4, 6])"
    using decode_batch_output_stops_at_EOS [OF first, of "[4, 5, 2, 4, 6]" vocab0 oov0]
    by (auto simp: docs)
  obtain out' where out': "decode_batch_output ?dt vocab0 oov0 = Inr out'"
    and full: "EOS vocab0 \<notin> set [6, 7, 5::nat] \<Longrightarrow>
               map Inr (out' ! 1) = map (lookup_word vocab0 oov0 1) [6, 7, 5]"
    using decode_batch_output_stops_at_EOS [OF second, of "[6, 7, 5]" vocab0 oov0]
    by (auto simp: docs)
  have same: "out' = out" using out out' by simp
  have "(\<forall>j<2. [4, 5, 2, 4, 6::nat] ! j \<noteq> 2)"
    by (simp add: less_Suc_eq numeral_2_eq_2)
  then have "map Inr (out ! 0) = map (lookup_word vocab0 oov0 0) (take (Suc 2) [4, 5, 2, 4, 6])"
    by (intro cut) (simp add: vocab0_def)
  then have a: "out ! 0 = [''GAMMA'', ''RAY'', ''<EOS>'']"
    by (simp add: lookup_word_def vocab_getitem_def vocab_len_def vocab0_def numeral_3_eq_3 map_eq_Cons_conv)
  have "map Inr (out ! 1) = map (lookup_word vocab0 oov0 1) [6, 7, 5]"
    using full same by (simp add: vocab0_def)
  then have b: "out ! 1 = [''<UNK>'', ''<UNK>'', ''RAY'']"
    by (simp add: lookup_word_def vocab_getitem_def vocab_len_def vocab0_def oov0_def map_eq_Cons_conv)
  have "out = [out ! 0, out ! 1]"
    using len by (cases out; cases "tl out") auto
  then show ?thesis using out a b by simp
qed

text \<open>
  Claim C4. For every example index \<open>i\<close> and token index \<open>w\<close>, \<open>decode_batch_output\<close>
  resolves \<open>w\<close> to the base-vocabulary token \<open>vocab[w]\<close> when \<open>w < len(vocab)\<close>, whatever
  the OOV dictionary holds, and otherwise to the OOV dictionary's entry for \<open>(i, w)\<close> when
  there is one and to the string \<open><UNK>\<close> when there is none. The resolution is total and
  never raises: the step that resolves one index returns for every \<open>i\<close> and \<open>w\<close>, and the
  call returns, for every input, exactly the sequences of the words so resolved (each
  sequence through its first end-of-sequence index).
\<close>

theorem decode_batch_output_resolves:
  "lookup_word v oov i w =
     Inr (if w < vocab_len v then vocab_tokens v ! w
          else (case index2word oov (i, w) of None \<Rightarrow> ''<UNK>'' | Some word \<Rightarrow> word)) \<and>
   decode_batch_output dt v oov =
     Inr (map (\<lambda>(i, doc).
            map (\<lambda>w. if w < vocab_len v then vocab_tokens v ! w
                      else (case index2word oov (i, w) of None \<Rightarrow> ''<UNK>'' | Some word \<Rightarrow> word))
              (through_EOS (EOS v) doc))
          (enumerate 0 (token_lists dt)))"
proof
  show "lookup_word v oov i w =
     Inr (if w < vocab_len v then vocab_tokens v ! w
          else (case index2word oov (i, w) of None \<Rightarrow> ''<UNK>'' | Some word \<Rightarrow> word))"
    by (simp add: lookup_word_resolve spec_resolve_def)
next
  have "spec_resolve v oov j =
      (\<lambda>w. if w < vocab_len v then vocab_tokens v ! w
            else (case index2word oov (j, w) of None \<Rightarrow> ''<UNK>'' | Some word \<Rightarrow> word))" for j
    by (rule ext) (simp add: spec_resolve_def)
  then show "decode_batch_output dt v oov =
     Inr (map (\<lambda>(i, doc).
            map (\<lambda>w. if w < vocab_len v then vocab_tokens v ! w
                      else (case index2word oov (i, w) of None \<Rightarrow> ''<UNK>'' | Some word \<Rightarrow> word))
              (through_EOS (EOS v) doc))
          (enumerate 0 (token_lists dt)))"
    by (simp add: decode_batch_output_through)
qed

theorem decode_batch_output_resolves_witness:
  "lookup_word vocab0 oov0 0 6 = Inr ''DEPTH'' \<and>
   lookup_word vocab0 oov0 1 6 = Inr ''<UNK>'' \<and>
   lookup_word vocab0 oov0 0 4 = Inr ''GAMMA'' \<and>
   decode_batch_output (TokenList [[6, 9, 1], [6, 2, 4]]) vocab0 oov0 =
     Inr [[''DEPTH'', ''<UNK>'', ''<SOS>''], [''<UNK>'', ''<EOS>'']]"
proof -
  let ?dt = "TokenList [[6, 9, 1], [6, 2, 4]]"
  have a: "lookup_word vocab0 oov0 0 6 = Inr ''DEPTH''"
    using decode_batch_output_resolves [of vocab0 oov0 0 6 ?dt]
    by (simp add: vocab_len_def vocab0_def oov0_def)
  have b: "lookup_word vocab0 oov0 1 6 = Inr ''<UNK>''"
    using decode_batch_output_resolves [of vocab0 oov0 1 6 ?dt]
    by (simp add: vocab_len_def vocab0_def oov0_def)
  have c: "lookup_word vocab0 oov0 0 4 = Inr ''GAMMA''"
    using decode_batch_output_resolves [of vocab0 oov0 0 4 ?dt]
    by (simp add: vocab_len_def vocab0_def oov0_def)
  have d: "decode_batch_output ?dt vocab0 oov0 =
      Inr [[''DEPTH'', ''<UNK>'', ''<SOS>''], [''<UNK>'', ''<EOS>'']]"
    using decode_batch_output_resolves [of vocab0 oov0 0 0 ?dt]
    by (simp add: token_lists_def vocab_len_def vocab0_def oov0_def)
  from a b c d show ?thesis by simp
qed

section \<open>Facts about the Python primitives\<close>

lemma then_do_Inl: "then_do (Inl e) f = Inl e"
  by (simp add: then_do_def)

lemma then_do_Inr: "then_do (Inr x) f = f x"
  by (simp add: then_do_def)

lemma then_do_eq_Inr: "then_do r f = Inr y \<longleftrightarrow> (\<exists>x. r = Inr x \<and> f x = Inr y)"
  by (cases r) (simp_all add: then_do_def)

lemma list_getitem_0: "list_getitem xs 0 = (case xs of [] \<Rightarrow> Inl IndexError | x # _ \<Rightarrow> Inr x)"
  by (cases xs) (simp_all add: list_getitem_def)

lemma list_getitem_1:
  "list_getitem xs 1 = (case xs of [] \<Rightarrow> Inl IndexError | x # ys \<Rightarrow> (case ys of [] \<Rightarrow> Inl IndexError | y # _ \<Rightarrow> Inr y))"
  by (cases xs; cases "tl xs") (auto simp: list_getitem_def)

lemma list_getitem_last: "list_getitem xs (- 1) = (if xs = [] then Inl IndexError else Inr (last xs))"
proof (cases "xs = []")
  case True
  then show ?thesis by (simp add: list_getitem_def)
next
  case False
  then have "nat (int (length xs) + - 1) = length xs - 1" and "Suc 0 \<le> length xs"
    by (simp_all add: Suc_le_eq)
  with False show ?thesis
    by (simp add: list_getitem_def last_conv_nth)
qed

lemma list_getitem_error: "list_getitem xs i = Inl e \<Longrightarrow> e = IndexError"
  by (auto simp: list_getitem_def split: if_splits)

text \<open>
  The words that \<open>str_split\<close> returns are non-empty and free of whitespace.
\<close>

lemma split_from_tokens:
  assumes "\<forall>c \<in> set word. \<not> isspace c" and "t \<in> set (split_from word s)"
  shows "t \<noteq> [] \<and> (\<forall>c \<in> set t. \<not> isspace c)"
  using assms
proof (induction s arbitrary: word)
  case Nil
  then show ?case by (cases "word = []") simp_all
next
  case (Cons c cs)
  show ?case
  proof (cases "isspace c")
    case space: True
    show ?thesis
    proof (cases "word = []")
      case True
      with space Cons.prems(2) have "t \<in> set (split_from [] cs)" by simp
      then show ?thesis by (intro Cons.IH [of "[]"]) simp_all
    next
      case False
      with space Cons.prems(2) have "t = word \<or> t \<in> set (split_from [] cs)" by simp
      then show ?thesis
      proof
        assume "t = word"
        with False Cons.prems(1) show ?thesis by simp
      next
        assume "t \<in> set (split_from [] cs)"
        then show ?thesis by (intro Cons.IH [of "[]"]) simp_all
      qed
    qed
  next
    case False
    with Cons.prems(2) have "t \<in> set (split_from (word @ [c]) cs)" by simp
    moreover have "\<forall>c' \<in> set (word @ [c]). \<not> isspace c'"
      using Cons.prems(1) False by simp
    ultimately show ?thesis by (intro Cons.IH [of "word @ [c]"])
  qed
qed

lemma str_split_tokens: "t \<in> set (str_split s) \<Longrightarrow> t \<noteq> [] \<and> (\<forall>c \<in> set t. \<not> isspace c)"
  using split_from_tokens [of "[]" t s] by (simp add: str_split_def)

lemma py_range_length: "length (py_range 1 (n + 1)) = nat n"
  by (simp add: py_range_def)

lemma py_int_floor: "nat (py_int x) = nat \<lfloor>x\<rfloor>"
proof (cases "0 \<le> x")
  case True
  then show ?thesis by (simp add: py_int_def)
next
  case False
  then have "\<lceil>x\<rceil> \<le> 0" and "\<lfloor>x\<rfloor> \<le> 0"
    by (simp_all add: ceiling_le_iff floor_le_iff)
  with False show ?thesis by (simp add: py_int_def)
qed

lemma rounds_length: "length (py_range 1 (py_int x + 1)) = nat \<lfloor>x\<rfloor>"
  by (simp add: py_range_length py_int_floor)

lemma log10_hundredth: "log 10 (1 / 100) = - 2"
proof -
  have "log 10 (1 / 100) = log 10 (10 powr (- 2))"
    by (simp add: powr_minus_divide)
  also have "\<dots> = - 2" by simp
  finally show ?thesis .
qed


section \<open>The steps of eval\_bs\_batch\<close>

lemma decode_batch_output_total: "\<exists>decoded_batch. decode_batch_output dt v oov = Inr decoded_batch"
  by (simp add: decode_batch_output_through)

lemma select_hypotheses_best:
  "select_hypotheses True (h # rest) =
     (if avg_log_prob h < 0 then Inr ([tokens h], Some (log 10 (- avg_log_prob h))) else Inl ValueError)"
  by (simp add: select_hypotheses_def list_getitem_0 math_log_def then_do_def)

lemma select_hypotheses_all: "select_hypotheses False hyps = Inr (map tokens hyps, None)"
  by (simp add: select_hypotheses_def)

lemma select_hypotheses_error:
  "select_hypotheses best_only hyps = Inl e \<Longrightarrow> e = IndexError \<or> e = ValueError"
  by (auto simp: select_hypotheses_def list_getitem_0 math_log_def then_do_def
      split: if_splits list.splits)

lemma select_hypotheses_probability:
  "select_hypotheses best_only hyps = Inr (to_decode, probability) \<Longrightarrow>
     probability = (if best_only then Some (log 10 (- avg_log_prob (hd hyps))) else None) \<and>
     to_decode = (if best_only then [tokens (hd hyps)] else map tokens hyps)"
  by (auto simp: select_hypotheses_def list_getitem_0 math_log_def then_do_def
      split: if_splits list.splits)

lemma predicted_label_error: "predicted_label ft details decoded_batch = Inl e \<Longrightarrow> e = IndexError"
  by (auto simp: predicted_label_def then_do_def Let_def list_getitem_0 list_getitem_1
      split: if_splits list.splits sum.splits)

lemma predicted_label_details:
  "predicted_label ft True (decoded # ds) =
     (case str_split (ft decoded) of
        first # second # others \<Rightarrow> Inr (Some (first @ '' '' @ second))
      | _ \<Rightarrow> Inl IndexError)"
  by (simp add: predicted_label_def then_do_def list_getitem_0 list_getitem_1 split: list.splits)

lemma predicted_label_truthy:
  "predicted_label ft True decoded_batch = Inr predicted \<Longrightarrow> truthy predicted"
  by (auto simp: predicted_label_def then_do_def Let_def truthy_def split: sum.splits)

lemma predicted_label_no_details: "predicted_label ft False decoded_batch = Inr None"
  by (simp add: predicted_label_def)

lemma mnemonic_error: "mnemonic ft details b = Inl e \<Longrightarrow> e = IndexError"
  by (auto simp: mnemonic_def then_do_def list_getitem_0 list_getitem_last
      split: if_splits list.splits)

lemma mnemonic_details:
  "examples b = [ex] \<Longrightarrow>
   mnemonic ft True b =
     (if str_split (ft (src ex)) = [] then Inl IndexError else Inr (Some (last (str_split (ft (src ex))))))"
  by (simp add: mnemonic_def then_do_def list_getitem_0 list_getitem_last)

lemma mnemonic_no_details: "mnemonic ft False b = Inr None"
  by (simp add: mnemonic_def)

text \<open>
  The call on a batch of one example, as the chain of its steps; the world only counts the
  one call of the model, and the result does not depend on the world.
\<close>

lemma eval_bs_batch_single:
  "length (examples b) = 1 \<Longrightarrow>
   eval_bs_batch ft b model v pack_seq beam_size min_out_len max_out_len len_in_words best_only details s =
     (then_do (select_hypotheses best_only
         (beam_search model (input_tensor b) (if pack_seq then Some (input_lengths b) else None)
            (ext_vocab_size b) beam_size min_out_len max_out_len len_in_words))
        (\<lambda>(to_decode, probability).
          then_do (decode_batch_output (TokenList to_decode) v (oov_dict b)) (\<lambda>decoded_batch.
          then_do (predicted_label ft details decoded_batch) (\<lambda>predicted.
          then_do (mnemonic ft details b) (\<lambda>mnem.
          then_do (read_local mnem) (\<lambda>mnem_value.
          then_do (read_local probability) (\<lambda>probability_value.
          Inr (predicted, mnem_value, probability_value))))))),
      s\<lparr>beam_search_calls := Suc (beam_search_calls s)\<rparr>)"
  by (simp add: eval_bs_batch_def Let_def)

lemma eval_bs_batch_world:
  "snd (eval_bs_batch ft b model v pack_seq beam_size min_out_len max_out_len len_in_words best_only details s) =
     (if length (examples b) = 1 then s\<lparr>beam_search_calls := Suc (beam_search_calls s)\<rparr> else s)"
  by (simp add: eval_bs_batch_def Let_def)

lemma eval_bs_batch_result_any_world:
  "fst (eval_bs_batch ft b model v pack_seq beam_size min_out_len max_out_len len_in_words best_only details s) =
   fst (eval_bs_batch ft b model v pack_seq beam_size min_out_len max_out_len len_in_words best_only details s0)"
  by (simp add: eval_bs_batch_def Let_def)

lemma eval_bs_batch_success_calls:
  assumes "eval_bs_batch ft b model v pack_seq beam_size min_out_len max_out_len len_in_words
             best_only details s = (Inr r, s1)"
  shows "beam_search_calls s1 = Suc (beam_search_calls s)"
proof -
  have "length (examples b) = 1"
    using assms by (cases "length (examples b) = 1") (simp_all add: eval_bs_batch_def)
  moreover have "s1 = snd (eval_bs_batch ft b model v pack_seq beam_size min_out_len max_out_len
      len_in_words best_only details s)"
    using assms by simp
  ultimately show ?thesis by (simp add: eval_bs_batch_world)
qed

text \<open>
  The call returns the label, the mnemonic and the score when nothing on its way fails.
\<close>

lemma eval_bs_batch_returns:
  assumes "examples b = [ex]"
    and "beam_search model (input_tensor b) (if pack_seq then Some (input_lengths b) else None)
           (ext_vocab_size b) beam_size min_out_len max_out_len len_in_words = h # rest"
    and "avg_log_prob h < 0"
    and "decode_batch_output (TokenList [tokens h]) v (oov_dict b) = Inr (decoded # ds)"
    and "str_split (ft decoded) = first # second # others"
    and "str_split (ft (src ex)) \<noteq> []"
  shows "eval_bs_batch ft b model v pack_seq beam_size min_out_len max_out_len len_in_words True True s =
           (Inr (Some (first @ '' '' @ second), last (str_split (ft (src ex))), log 10 (- avg_log_prob h)),
            s\<lparr>beam_search_calls := Suc (beam_search_calls s)\<rparr>)"
proof -
  have "length (examples b) = 1" using assms(1) by simp
  then show ?thesis
    using assms
    by (simp add: eval_bs_batch_single select_hypotheses_best then_do_Inr predicted_label_details
        mnemonic_details read_local_def)
qed

text \<open>
  What a call can raise after the assertion, and what it has done when it returns: a return
  needs both \<^verbatim>\<open>best_only\<close> and \<^verbatim>\<open>details\<close>, since \<^verbatim>\<open>probability\<close> and \<^verbatim>\<open>mnem\<close> are bound
  on those branches only.
\<close>

lemma eval_bs_batch_error_kinds:
  assumes "length (examples b) = 1"
    and "fst (eval_bs_batch ft b model v pack_seq beam_size min_out_len max_out_len len_in_words best_only details s) = Inl e"
  shows "e = IndexError \<or> e = ValueError \<or> e = UnboundLocalError"
proof -
  let ?hyps = "beam_search model (input_tensor b) (if pack_seq then Some (input_lengths b) else None)
            (ext_vocab_size b) beam_size min_out_len max_out_len len_in_words"
  show ?thesis
  proof (cases "select_hypotheses best_only ?hyps")
    case (Inl e')
    with assms have "e = e'" by (simp add: eval_bs_batch_single then_do_Inl)
    with Inl show ?thesis using select_hypotheses_error by blast
  next
    case (Inr sel)
    obtain to_decode probability where sel: "sel = (to_decode, probability)" by (cases sel)
    obtain decoded_batch where dec: "decode_batch_output (TokenList to_decode) v (oov_dict b) = Inr decoded_batch"
      using decode_batch_output_total by blast
    show ?thesis
    proof (cases "predicted_label ft details decoded_batch")
      case (Inl e')
      with assms Inr sel dec have "e = e'" by (simp add: eval_bs_batch_single then_do_Inl then_do_Inr)
      with Inl show ?thesis using predicted_label_error by blast
    next
      case pl: (Inr predicted)
      show ?thesis
      proof (cases "mnemonic ft details b")
        case (Inl e')
        with assms Inr sel dec pl have "e = e'" by (simp add: eval_bs_batch_single then_do_Inl then_do_Inr)
        with Inl show ?thesis using mnemonic_error by blast
      next
        case mn: (Inr mnem)
        from assms Inr sel dec pl mn show ?thesis
          by (auto simp: eval_bs_batch_single then_do_Inl then_do_Inr read_local_def then_do_def
              split: option.splits)
      qed
    qed
  qed
qed

lemma eval_bs_batch_zero_log_prob:
  assumes "length (examples b) = 1"
    and "beam_search model (input_tensor b) (if pack_seq then Some (input_lengths b) else None)
           (ext_vocab_size b) beam_size min_out_len max_out_len len_in_words = h # rest"
    and "\<not> avg_log_prob h < 0"
  shows "fst (eval_bs_batch ft b model v pack_seq beam_size min_out_len max_out_len len_in_words
                True details s) = Inl ValueError"
  using assms by (simp add: eval_bs_batch_single select_hypotheses_best then_do_Inl)

lemma eval_bs_batch_returned_probability:
  assumes "length (examples b) = 1"
    and "fst (eval_bs_batch ft b model v pack_seq beam_size min_out_len max_out_len len_in_words
                best_only details s) = Inr (predicted, mnem, prob)"
  shows "best_only \<and> details \<and>
         prob = log 10 (- avg_log_prob (hd (beam_search model (input_tensor b)
                  (if pack_seq then Some (input_lengths b) else None)
                  (ext_vocab_size b) beam_size min_out_len max_out_len len_in_words)))"
proof -
  let ?hyps = "beam_search model (input_tensor b) (if pack_seq then Some (input_lengths b) else None)
            (ext_vocab_size b) beam_size min_out_len max_out_len len_in_words"
  from assms obtain to_decode probability mnem'
    where sel: "select_hypotheses best_only ?hyps = Inr (to_decode, probability)"
      and mn: "mnemonic ft details b = Inr mnem'"
      and rd: "read_local mnem' = Inr mnem" "read_local probability = Inr prob"
    by (auto simp: eval_bs_batch_single then_do_eq_Inr)
  from rd have bound: "mnem' = Some mnem" "probability = Some prob"
    by (auto simp: read_local_def split: option.splits)
  from mn bound have "details"
    by (cases details) (simp_all add: mnemonic_no_details)
  moreover from select_hypotheses_probability [OF sel] bound
  have "best_only \<and> prob = log 10 (- avg_log_prob (hd ?hyps))"
    by (cases best_only) simp_all
  ultimately show ?thesis by simp
qed

lemma eval_bs_batch_label_truthy:
  assumes "fst (eval_bs_batch ft b model v pack_seq beam_size min_out_len max_out_len len_in_words
                  best_only True s) = Inr (predicted, mnem, prob)"
  shows "truthy predicted"
proof -
  have one: "length (examples b) = 1"
    using assms by (cases "length (examples b) = 1") (simp_all add: eval_bs_batch_def)
  from assms obtain decoded_batch where "predicted_label ft True decoded_batch = Inr predicted"
    by (auto simp: eval_bs_batch_single [OF one] then_do_eq_Inr)
  then show ?thesis by (rule predicted_label_truthy)
qed

lemma eval_bs_batch_without_details_fails:
  "fst (eval_bs_batch ft b model v pack_seq beam_size min_out_len max_out_len len_in_words best_only
          False s) \<noteq> Inr r"
proof (cases "length (examples b) = 1")
  case True
  show ?thesis
  proof
    assume "fst (eval_bs_batch ft b model v pack_seq beam_size min_out_len max_out_len len_in_words
      best_only False s) = Inr r"
    then show False
      using eval_bs_batch_returned_probability [OF True, of ft model v pack_seq beam_size min_out_len
          max_out_len len_in_words best_only False s "fst r" "fst (snd r)" "snd (snd r)"]
      by simp
  qed
next
  case False
  then show ?thesis by (simp add: eval_bs_batch_def)
qed

lemma eval_bs_batch_all_hypotheses_fails:
  "fst (eval_bs_batch ft b model v pack_seq beam_size min_out_len max_out_len len_in_words False
          details s) \<noteq> Inr r"
proof (cases "length (examples b) = 1")
  case True
  show ?thesis
  proof
    assume "fst (eval_bs_batch ft b model v pack_seq beam_size min_out_len max_out_len len_in_words
      False details s) = Inr r"
    then show False
      using eval_bs_batch_returned_probability [OF True, of ft model v pack_seq beam_size min_out_len
          max_out_len len_in_words False details s "fst r" "fst (snd r)" "snd (snd r)"]
      by simp
  qed
next
  case False
  then show ?thesis by (simp add: eval_bs_batch_def)
qed

text \<open>
  Evaluations on the example inputs.
\<close>

lemma decode_gamma_ray:
  "decode_batch_output (TokenList [[4, 5, 2]]) vocab0 oov0 = Inr [[''GAMMA'', ''RAY'', ''<EOS>'']]"
  by (simp add: decode_batch_output_def token_lists_def lookup_word_def vocab_getitem_def
      vocab_len_def vocab0_def)

lemma split_gamma_ray: "str_split (format_tokens0 [''GAMMA'', ''RAY'', ''<EOS>'']) = [''GAMMA'', ''RAY'']"
  by (simp add: format_tokens0_def str_split_def isspace_def)

lemma split_depth_ft: "str_split (format_tokens0 [''DEPTH'', ''FT'']) = [''DEPTH'', ''FT'']"
  by (simp add: format_tokens0_def str_split_def isspace_def)

lemma run_batch0:
  "eval_bs_batch format_tokens0 batch0 model_by_ext vocab0 pack_seq beam_size min_out_len max_out_len len_in_words True True s =
     (Inr (Some ''GAMMA RAY'', ''FT'', - 2), s\<lparr>beam_search_calls := Suc (beam_search_calls s)\<rparr>)"
proof -
  have "eval_bs_batch format_tokens0 batch0 model_by_ext vocab0 pack_seq beam_size min_out_len max_out_len len_in_words True True s =
     (Inr (Some (''GAMMA'' @ '' '' @ ''RAY''),
           last (str_split (format_tokens0 (src \<lparr>src = [''DEPTH'', ''FT'']\<rparr>))),
           log 10 (- avg_log_prob gamma_ray)),
      s\<lparr>beam_search_calls := Suc (beam_search_calls s)\<rparr>)"
  proof (rule eval_bs_batch_returns [where rest = "[]" and ds = "[]" and others = "[]"
        and decoded = "[''GAMMA'', ''RAY'', ''<EOS>'']"])
    show "examples batch0 = [\<lparr>src = [''DEPTH'', ''FT'']\<rparr>]"
      by (simp add: batch0_def)
    show "beam_search model_by_ext (input_tensor batch0)
        (if pack_seq then Some (input_lengths batch0) else None) (ext_vocab_size batch0) beam_size
        min_out_len max_out_len len_in_words =
        [gamma_ray]"
      by (simp add: model_by_ext_def batch0_def)
    show "avg_log_prob gamma_ray < 0"
      by (simp add: gamma_ray_def)
    show "decode_batch_output (TokenList [tokens gamma_ray]) vocab0 (oov_dict batch0) =
        Inr [[''GAMMA'', ''RAY'', ''<EOS>'']]"
      by (simp add: gamma_ray_def batch0_def decode_gamma_ray)
    show "str_split (format_tokens0 [''GAMMA'', ''RAY'', ''<EOS>'']) = [''GAMMA'', ''RAY'']"
      by (rule split_gamma_ray)
    show "str_split (format_tokens0 (src \<lparr>src = [''DEPTH'', ''FT'']\<rparr>)) \<noteq> []"
      by (simp add: split_depth_ft)
  qed
  then show ?thesis
    by (simp add: split_depth_ft gamma_ray_def log10_hundredth)
qed

lemma run_batch_sonic:
  "eval_bs_batch format_tokens0 batch_sonic model_by_ext vocab0 pack_seq beam_size min_out_len max_out_len len_in_words True True s =
     (Inr (Some ''SONIC RAY'', ''FT'', 1), s\<lparr>beam_search_calls := Suc (beam_search_calls s)\<rparr>)"
proof -
  let ?h = "\<lparr>tokens = [6, 5, 2], avg_log_prob = - 10\<rparr>"
  have split_src: "str_split (format_tokens0 [''SONIC'', ''FT'']) = [''SONIC'', ''FT'']"
    by (simp add: format_tokens0_def str_split_def isspace_def)
  have "eval_bs_batch format_tokens0 batch_sonic model_by_ext vocab0 pack_seq beam_size min_out_len max_out_len len_in_words True True s =
     (Inr (Some (''SONIC'' @ '' '' @ ''RAY''),
           last (str_split (format_tokens0 (src \<lparr>src = [''SONIC'', ''FT'']\<rparr>))),
           log 10 (- avg_log_prob ?h)),
      s\<lparr>beam_search_calls := Suc (beam_search_calls s)\<rparr>)"
  proof (rule eval_bs_batch_returns [where rest = "[]" and ds = "[]" and others = "[]"
        and decoded = "[''SONIC'', ''RAY'', ''<EOS>'']"])
    show "examples batch_sonic = [\<lparr>src = [''SONIC'', ''FT'']\<rparr>]"
      by (simp add: batch_sonic_def)
    show "beam_search model_by_ext (input_tensor batch_sonic)
        (if pack_seq then Some (input_lengths batch_sonic) else None) (ext_vocab_size batch_sonic)
        beam_size min_out_len max_out_len len_in_words = [?h]"
      by (simp add: model_by_ext_def batch_sonic_def)
    show "avg_log_prob ?h < 0"
      by simp
    show "decode_batch_output (TokenList [tokens ?h]) vocab0 (oov_dict batch_sonic) =
        Inr [[''SONIC'', ''RAY'', ''<EOS>'']]"
      by (simp add: batch_sonic_def decode_batch_output_def token_lists_def lookup_word_def
          vocab_getitem_def vocab_len_def vocab0_def)
    show "str_split (format_tokens0 [''SONIC'', ''RAY'', ''<EOS>'']) = [''SONIC'', ''RAY'']"
      by (simp add: format_tokens0_def str_split_def isspace_def)
    show "str_split (format_tokens0 (src \<lparr>src = [''SONIC'', ''FT'']\<rparr>)) \<noteq> []"
      by (simp add: split_src)
  qed
  then show ?thesis
    by (simp add: split_src)
qed

lemma run_batch_gr:
  "eval_bs_batch format_tokens0 batch_gr model_by_ext vocab0 pack_seq beam_size min_out_len max_out_len
     len_in_words True True s =
     (Inr (Some ''GAMMA RAY'', ''GR'', - 2), s\<lparr>beam_search_calls := Suc (beam_search_calls s)\<rparr>)"
proof -
  have split_src: "str_split (format_tokens0 [''GR'']) = [''GR'']"
    by (simp add: format_tokens0_def str_split_def isspace_def)
  have "eval_bs_batch format_tokens0 batch_gr model_by_ext vocab0 pack_seq beam_size min_out_len
     max_out_len len_in_words True True s =
     (Inr (Some (''GAMMA'' @ '' '' @ ''RAY''),
           last (str_split (format_tokens0 (src \<lparr>src = [''GR'']\<rparr>))),
           log 10 (- avg_log_prob gamma_ray)),
      s\<lparr>beam_search_calls := Suc (beam_search_calls s)\<rparr>)"
  proof (rule eval_bs_batch_returns [where rest = "[]" and ds = "[]" and others = "[]"
        and decoded = "[''GAMMA'', ''RAY'', ''<EOS>'']"])
    show "examples batch_gr = [\<lparr>src = [''GR'']\<rparr>]"
      by (simp add: batch_gr_def)
    show "beam_search model_by_ext (input_tensor batch_gr)
        (if pack_seq then Some (input_lengths batch_gr) else None) (ext_vocab_size batch_gr) beam_size
        min_out_len max_out_len len_in_words = [gamma_ray]"
      by (simp add: model_by_ext_def batch_gr_def batch0_def)
    show "avg_log_prob gamma_ray < 0"
      by (simp add: gamma_ray_def)
    show "decode_batch_output (TokenList [tokens gamma_ray]) vocab0 (oov_dict batch_gr) =
        Inr [[''GAMMA'', ''RAY'', ''<EOS>'']]"
      by (simp add: gamma_ray_def batch_gr_def batch0_def decode_gamma_ray)
    show "str_split (format_tokens0 [''GAMMA'', ''RAY'', ''<EOS>'']) = [''GAMMA'', ''RAY'']"
      by (rule split_gamma_ray)
    show "str_split (format_tokens0 (src \<lparr>src = [''GR'']\<rparr>)) \<noteq> []"
      by (simp add: split_src)
  qed
  then show ?thesis
    by (simp add: split_src gamma_ray_def log10_hundredth)
qed


section \<open>Properties of eval\_bs\_batch\<close>

text \<open>
  Claim C5. \<open>eval_bs_batch\<close> requires the batch to hold exactly one example. For every batch
  whose number of examples is not 1 the call fails with the assertion error (the
  specification's InvalidBatchSize) and leaves the world as it was, so the model has not been
  invoked. For every batch of exactly one example the check passes: the call does not fail
  with the assertion error, and the model is invoked once.
\<close>

theorem eval_bs_batch_requires_one_example:
  "(length (examples b) \<noteq> 1 \<longrightarrow>
      eval_bs_batch ft b model v pack_seq beam_size min_out_len max_out_len len_in_words best_only details s =
        (Inl AssertionError, s)) \<and>
   (length (examples b) = 1 \<longrightarrow>
      fst (eval_bs_batch ft b model v pack_seq beam_size min_out_len max_out_len len_in_words best_only details s)
        \<noteq> Inl AssertionError \<and>
      beam_search_calls (snd (eval_bs_batch ft b model v pack_seq beam_size min_out_len max_out_len
        len_in_words best_only details s)) = Suc (beam_search_calls s))"
proof (intro conjI impI)
  assume "length (examples b) \<noteq> 1"
  then show "eval_bs_batch ft b model v pack_seq beam_size min_out_len max_out_len len_in_words best_only details s =
        (Inl AssertionError, s)"
    by (simp add: eval_bs_batch_def)
next
  assume one: "length (examples b) = 1"
  show "fst (eval_bs_batch ft b model v pack_seq beam_size min_out_len max_out_len len_in_words best_only details s)
        \<noteq> Inl AssertionError"
    using eval_bs_batch_error_kinds [OF one] by blast
  show "beam_search_calls (snd (eval_bs_batch ft b model v pack_seq beam_size min_out_len max_out_len
        len_in_words best_only details s)) = Suc (beam_search_calls s)"
    using one by (simp add: eval_bs_batch_world)
qed

theorem eval_bs_batch_requires_one_example_witness:
  "length (examples batch_pair) \<noteq> 1 \<and>
   eval_bs_batch format_tokens0 batch_pair (model_of [gamma_ray]) vocab0 True 4 1 None True True True world0 =
     (Inl AssertionError, world0) \<and>
   length (examples batch0) = 1 \<and>
   fst (eval_bs_batch format_tokens0 batch0 (model_of [gamma_ray]) vocab0 True 4 1 None True True True world0)
     \<noteq> Inl AssertionError \<and>
   beam_search_calls (snd (eval_bs_batch format_tokens0 batch0 (model_of [gamma_ray]) vocab0 True 4 1 None
     True True True world0)) = 1"
proof -
  have two: "length (examples batch_pair) \<noteq> 1" and one: "length (examples batch0) = 1"
    by (simp_all add: batch_pair_def batch0_def)
  have zero: "beam_search_calls world0 = 0"
    by (simp add: world0_def)
  show ?thesis
    using eval_bs_batch_requires_one_example [of batch_pair format_tokens0 "model_of [gamma_ray]" vocab0
        True 4 1 None True True True world0]
      eval_bs_batch_requires_one_example [of batch0 format_tokens0 "model_of [gamma_ray]" vocab0
        True 4 1 None True True True world0]
      two one zero
    by simp
qed

text \<open>
  Claim C1, as stated, fails: a batch of one example decoded with \<open>details = True\<close> need not
  return a label at all. When the top hypothesis decodes to a single word, the read of
  \<^verbatim>\<open>predict_lst[1]\<close> raises IndexError; when its average log-probability is 0, the call has
  already failed in \<^verbatim>\<open>math.log\<close>, although both the label and the mnemonic are defined.
\<close>

theorem eval_bs_batch_label_counterexample:
  "length (examples batch0) = 1 \<and>
   fst (eval_bs_batch format_tokens0 batch0 (model_of [\<lparr>tokens = [4, 2], avg_log_prob = - 1\<rparr>]) vocab0
          True 4 1 None True True True world0) = Inl IndexError \<and>
   fst (eval_bs_batch format_tokens0 batch0 (model_of [gamma_ray\<lparr>avg_log_prob := 0\<rparr>]) vocab0
          True 4 1 None True True True world0) = Inl ValueError"
  by (simp add: eval_bs_batch_def batch0_def model_of_def gamma_ray_def select_hypotheses_def
      then_do_def list_getitem_def math_log_def decode_batch_output_def token_lists_def
      lookup_word_def vocab_getitem_def vocab_len_def vocab0_def oov0_def predicted_label_def
      format_tokens0_def str_split_def isspace_def)

text \<open>
  Claim C1, amended. For every batch of one example decoded with \<open>details = True\<close> and
  \<open>best_only = True\<close>, for which the beam search returns a top hypothesis of negative
  average log-probability whose decoded, detokenized string has at least two
  whitespace-separated tokens, and whose detokenized source has at least one:
  \<open>eval_bs_batch\<close> returns the predicted label made of the first two of these tokens joined
  by one space, and the mnemonic identifier that is the last whitespace-separated token of
  the detokenized source.
\<close>

theorem eval_bs_batch_label_and_mnemonic:
  assumes "examples b = [ex]"
    and "beam_search model (input_tensor b) (if pack_seq then Some (input_lengths b) else None)
           (ext_vocab_size b) beam_size min_out_len max_out_len len_in_words = h # rest"
    and "avg_log_prob h < 0"
    and "decode_batch_output (TokenList [tokens h]) v (oov_dict b) = Inr (decoded # ds)"
    and "str_split (ft decoded) = first # second # others"
    and "str_split (ft (src ex)) \<noteq> []"
  shows "\<exists>prob. fst (eval_bs_batch ft b model v pack_seq beam_size min_out_len max_out_len len_in_words
                  True True s) =
           Inr (Some (first @ '' '' @ second), last (str_split (ft (src ex))), prob)"
  using eval_bs_batch_returns [where ft = ft and s = s, OF assms] by simp

theorem eval_bs_batch_label_and_mnemonic_witness:
  "\<exists>prob. fst (eval_bs_batch format_tokens0 batch0 (model_of [gamma_ray]) vocab0 True 4 1 None True True True
      world0) = Inr (Some ''GAMMA RAY'', ''FT'', prob)"
proof -
  have "examples batch0 = [\<lparr>src = [''DEPTH'', ''FT'']\<rparr>]"
    by (simp add: batch0_def)
  moreover have "beam_search (model_of [gamma_ray]) (input_tensor batch0)
      (if True then Some (input_lengths batch0) else None) (ext_vocab_size batch0) 4 1 None True =
      gamma_ray # []"
    by (simp add: model_of_def)
  moreover have "avg_log_prob gamma_ray < 0"
    by (simp add: gamma_ray_def)
  moreover have "decode_batch_output (TokenList [tokens gamma_ray]) vocab0 (oov_dict batch0) =
      Inr ([''GAMMA'', ''RAY'', ''<EOS>''] # [])"
    by (simp add: gamma_ray_def batch0_def decode_gamma_ray)
  moreover have "str_split (format_tokens0 [''GAMMA'', ''RAY'', ''<EOS>'']) = ''GAMMA'' # ''RAY'' # []"
    by (rule split_gamma_ray)
  moreover have "str_split (format_tokens0 (src \<lparr>src = [''DEPTH'', ''FT'']\<rparr>)) \<noteq> []"
    by (simp add: split_depth_ft)
  ultimately have "\<exists>prob. fst (eval_bs_batch format_tokens0 batch0 (model_of [gamma_ray]) vocab0 True 4 1
      None True True True world0) =
      Inr (Some (''GAMMA'' @ '' '' @ ''RAY''),
           last (str_split (format_tokens0 (src \<lparr>src = [''DEPTH'', ''FT'']\<rparr>))), prob)"
    by (rule eval_bs_batch_label_and_mnemonic)
  then show ?thesis by (simp add: split_depth_ft)
qed

text \<open>
  Claim C2, as stated, fails: with \<open>best_only = True\<close> and a negative average
  log-probability the call need not return a score. The score is computed, but the call
  fails afterwards with IndexError when the decoded label has no word, or when the source
  has none.
\<close>

theorem eval_bs_batch_probability_counterexample:
  "length (examples batch0) = 1 \<and> avg_log_prob \<lparr>tokens = [2], avg_log_prob = - 1\<rparr> < 0 \<and>
   fst (eval_bs_batch format_tokens0 batch0 (model_of [\<lparr>tokens = [2], avg_log_prob = - 1\<rparr>]) vocab0
          True 4 1 None True True True world0) = Inl IndexError \<and>
   length (examples (batch0\<lparr>examples := [\<lparr>src = []\<rparr>]\<rparr>)) = 1 \<and> avg_log_prob gamma_ray < 0 \<and>
   fst (eval_bs_batch format_tokens0 (batch0\<lparr>examples := [\<lparr>src = []\<rparr>]\<rparr>) (model_of [gamma_ray]) vocab0
          True 4 1 None True True True world0) = Inl IndexError"
  by (simp add: eval_bs_batch_def batch0_def model_of_def gamma_ray_def select_hypotheses_def
      then_do_def list_getitem_def math_log_def decode_batch_output_def token_lists_def
      lookup_word_def vocab_getitem_def vocab_len_def vocab0_def oov0_def predicted_label_def
      mnemonic_def format_tokens0_def str_split_def isspace_def)

text \<open>
  Claim C2, amended. For every batch of one example decoded with \<open>best_only = True\<close> for
  which the beam search returns at least one hypothesis: when the top hypothesis has
  \<open>avg_log_prob < 0\<close>, the call does not fail with a mathematical-domain error, every score
  it returns equals \<open>log10(-avg_log_prob)\<close>, and it does return that score when \<open>details\<close>
  is true, the decoded label has at least two whitespace-separated tokens and the source at
  least one; when \<open>avg_log_prob = 0\<close> the call fails with the mathematical-domain error
  (ValueError).
\<close>

theorem eval_bs_batch_probability:
  assumes "examples b = [ex]"
    and "beam_search model (input_tensor b) (if pack_seq then Some (input_lengths b) else None)
           (ext_vocab_size b) beam_size min_out_len max_out_len len_in_words = h # rest"
    and "decode_batch_output (TokenList [tokens h]) v (oov_dict b) = Inr (decoded # ds)"
  shows "(avg_log_prob h < 0 \<longrightarrow>
            fst (eval_bs_batch ft b model v pack_seq beam_size min_out_len max_out_len len_in_words
                   True details s) \<noteq> Inl ValueError \<and>
            (\<forall>predicted mnem prob.
               fst (eval_bs_batch ft b model v pack_seq beam_size min_out_len max_out_len len_in_words
                      True details s) = Inr (predicted, mnem, prob) \<longrightarrow>
               prob = log 10 (- avg_log_prob h)) \<and>
            (details \<and> 2 \<le> length (str_split (ft decoded)) \<and> str_split (ft (src ex)) \<noteq> [] \<longrightarrow>
               (\<exists>predicted mnem.
                  fst (eval_bs_batch ft b model v pack_seq beam_size min_out_len max_out_len len_in_words
                         True details s) = Inr (predicted, mnem, log 10 (- avg_log_prob h))))) \<and>
         (avg_log_prob h = 0 \<longrightarrow>
            fst (eval_bs_batch ft b model v pack_seq beam_size min_out_len max_out_len len_in_words
                   True details s) = Inl ValueError)"
proof (intro conjI impI allI)
  have one: "length (examples b) = 1" using assms(1) by simp
  let ?run = "eval_bs_batch ft b model v pack_seq beam_size min_out_len max_out_len len_in_words True details s"
  {
    assume neg: "avg_log_prob h < 0"
    have sel: "select_hypotheses True (beam_search model (input_tensor b)
        (if pack_seq then Some (input_lengths b) else None) (ext_vocab_size b) beam_size min_out_len
        max_out_len len_in_words) = Inr ([tokens h], Some (log 10 (- avg_log_prob h)))"
      using assms(2) neg by (simp add: select_hypotheses_best)
    show "fst ?run \<noteq> Inl ValueError"
    proof
      assume "fst ?run = Inl ValueError"
      then show False
        using one sel assms(3)
        by (auto simp: eval_bs_batch_single then_do_Inr then_do_def read_local_def
            split: sum.splits option.splits dest: predicted_label_error mnemonic_error)
    qed
  }
  {
    fix predicted mnem prob
    assume "fst ?run = Inr (predicted, mnem, prob)"
    from eval_bs_batch_returned_probability [OF one this] assms(2)
    show "prob = log 10 (- avg_log_prob h)" by simp
  }
  {
    assume neg: "avg_log_prob h < 0"
      and ok: "details \<and> 2 \<le> length (str_split (ft decoded)) \<and> str_split (ft (src ex)) \<noteq> []"
    then obtain first second others where "str_split (ft decoded) = first # second # others"
      by (cases "str_split (ft decoded)"; cases "tl (str_split (ft decoded))") auto
    from eval_bs_batch_returns [where ft = ft and s = s, OF assms(1,2) neg assms(3) this] ok
    show "\<exists>predicted mnem. fst ?run = Inr (predicted, mnem, log 10 (- avg_log_prob h))"
      by simp
  }
  {
    assume "avg_log_prob h = 0"
    then show "fst ?run = Inl ValueError"
      using eval_bs_batch_zero_log_prob [OF one assms(2)] by simp
  }
qed

theorem eval_bs_batch_probability_witness:
  "fst (eval_bs_batch format_tokens0 batch0 (model_of [gamma_ray]) vocab0 True 4 1 None True True True
     world0) = Inr (Some ''GAMMA RAY'', ''FT'', - 2) \<and>
   fst (eval_bs_batch format_tokens0 batch0 (model_of [gamma_ray\<lparr>avg_log_prob := 0\<rparr>]) vocab0 True 4 1
     None True True True world0) = Inl ValueError"
proof -
  let ?ex = "\<lparr>src = [''DEPTH'', ''FT'']\<rparr>"
  let ?decoded = "[''GAMMA'', ''RAY'', ''<EOS>'']"
  have ex: "examples batch0 = [?ex]"
    by (simp add: batch0_def)
  have hyps: "beam_search (model_of [hyp]) (input_tensor batch0)
      (if True then Some (input_lengths batch0) else None) (ext_vocab_size batch0) 4 1 None True =
      hyp # []" for hyp
    by (simp add: model_of_def)
  have dec: "decode_batch_output (TokenList [tokens gamma_ray]) vocab0 (oov_dict batch0) =
      Inr (?decoded # [])"
    by (simp add: gamma_ray_def batch0_def decode_gamma_ray)
  have dec0: "decode_batch_output (TokenList [tokens (gamma_ray\<lparr>avg_log_prob := 0\<rparr>)]) vocab0
      (oov_dict batch0) = Inr (?decoded # [])"
    by (simp add: gamma_ray_def batch0_def decode_gamma_ray)
  have neg: "avg_log_prob gamma_ray < 0" and score: "log 10 (- avg_log_prob gamma_ray) = - 2"
    by (simp_all add: gamma_ray_def log10_hundredth)
  have enough: "True \<and> 2 \<le> length (str_split (format_tokens0 ?decoded)) \<and>
      str_split (format_tokens0 (src ?ex)) \<noteq> []"
    by (simp add: split_gamma_ray split_depth_ft)
  have value_of: "fst (eval_bs_batch format_tokens0 batch0 (model_of [gamma_ray]) vocab0 True 4 1 None
      True True True world0) = Inr (Some ''GAMMA RAY'', ''FT'', log 10 (- avg_log_prob gamma_ray))"
    using eval_bs_batch_returns [where ft = format_tokens0 and s = world0 and first = "''GAMMA''"
        and second = "''RAY''" and others = "[]", OF ex hyps neg dec]
    by (simp add: split_gamma_ray split_depth_ft)
  from eval_bs_batch_probability [OF ex hyps dec, of format_tokens0 True world0] neg enough
  obtain predicted mnem where "fst (eval_bs_batch format_tokens0 batch0 (model_of [gamma_ray]) vocab0
      True 4 1 None True True True world0) = Inr (predicted, mnem, log 10 (- avg_log_prob gamma_ray))"
    by blast
  with value_of score have first: "fst (eval_bs_batch format_tokens0 batch0 (model_of [gamma_ray]) vocab0
      True 4 1 None True True True world0) = Inr (Some ''GAMMA RAY'', ''FT'', - 2)"
    by simp
  have "avg_log_prob (gamma_ray\<lparr>avg_log_prob := 0\<rparr>) = 0" by simp
  with eval_bs_batch_probability [OF ex hyps dec0, of format_tokens0 True world0]
  have "fst (eval_bs_batch format_tokens0 batch0 (model_of [gamma_ray\<lparr>avg_log_prob := 0\<rparr>]) vocab0
      True 4 1 None True True True world0) = Inl ValueError"
    by blast
  with first show ?thesis by simp
qed

text \<open>
  Claim C6 (details = false returns the absent label with the mnemonic and the score) does
  not hold of the code: \<^verbatim>\<open>mnem\<close> is assigned under \<^verbatim>\<open>if details\<close> only, so the
  \<^verbatim>\<open>return\<close> reads an unbound local. The call on the example batch with
  \<open>details = False\<close> raises UnboundLocalError; by \<open>eval_bs_batch_without_details_fails\<close>
  no call with \<open>details = False\<close> returns.
\<close>

theorem eval_bs_batch_details_False_unbound_mnem:
  "fst (eval_bs_batch format_tokens0 batch0 (model_of [gamma_ray]) vocab0 True 4 1 None True True False
          world0) = Inl UnboundLocalError"
  by (simp add: eval_bs_batch_def batch0_def model_of_def gamma_ray_def select_hypotheses_def
      then_do_def list_getitem_def math_log_def decode_batch_output_def token_lists_def
      lookup_word_def vocab_getitem_def vocab_len_def vocab0_def oov0_def predicted_label_def
      mnemonic_def read_local_def)

text \<open>
  Claim C7 (best\_only = false decodes all hypotheses and returns the triple) does not hold
  of the code: all hypotheses are selected and decoded, but \<^verbatim>\<open>probability\<close> is assigned on
  the \<^verbatim>\<open>best_only\<close> branch only, so the \<^verbatim>\<open>return\<close> reads an unbound local. The call on
  the example batch with two hypotheses raises UnboundLocalError; by
  \<open>eval_bs_batch_all_hypotheses_fails\<close> no call with \<open>best_only = False\<close> returns.
\<close>

theorem eval_bs_batch_best_only_False_unbound_probability:
  "select_hypotheses False [gamma_ray, \<lparr>tokens = [5, 2], avg_log_prob = - 1\<rparr>] =
     Inr ([[4, 5, 2], [5, 2]], None) \<and>
   decode_batch_output (TokenList [[4, 5, 2], [5, 2]]) vocab0 (oov_dict batch0) =
     Inr [[''GAMMA'', ''RAY'', ''<EOS>''], [''RAY'', ''<EOS>'']] \<and>
   fst (eval_bs_batch format_tokens0 batch0
          (model_of [gamma_ray, \<lparr>tokens = [5, 2], avg_log_prob = - 1\<rparr>]) vocab0 True 4 1 None True
          False True world0) = Inl UnboundLocalError"
  by (simp add: eval_bs_batch_def batch0_def model_of_def gamma_ray_def select_hypotheses_def
      then_do_def list_getitem_def decode_batch_output_def token_lists_def
      lookup_word_def vocab_getitem_def vocab_len_def vocab0_def oov0_def predicted_label_def
      format_tokens0_def str_split_def isspace_def mnemonic_def read_local_def)


section \<open>The loop of eval\_bs\<close>

lemma record_prediction_truthy:
  "truthy predicted \<Longrightarrow>
   record_prediction (output, prob_output) (predicted, mnem, prob) =
     (output(mnem \<mapsto> the predicted), prob_output(mnem \<mapsto> prob))"
  by (simp add: record_prediction_def)

lemma record_prediction_absent: "record_prediction out (None, mnem, prob) = out"
  by (cases out) (simp add: record_prediction_def truthy_def)

lemma eval_bs_loop_step:
  assumes "eval_bs_loop ft model v p result_file (n # rounds) test_gen out s = (Inr out', s')"
  shows "\<exists>b test_gen' r s1. test_gen = b # test_gen' \<and> result_file \<noteq> None \<and>
           eval_bs_batch ft b model v (param_pack_seq p) (param_beam_size p) (param_min_out_len p)
             (param_max_out_len p) (out_len_in_words p) True True s = (Inr r, s1) \<and>
           eval_bs_loop ft model v p result_file rounds test_gen' (record_prediction out r) s1 =
             (Inr out', s')"
  using assms
  by (auto simp: read_local_def split: list.splits option.splits sum.splits prod.splits)

lemma eval_bs_loop_unbound:
  "eval_bs_loop ft model v p None (n # rounds) test_gen out s =
     (if test_gen = [] then (Inl StopIteration, s) else (Inl UnboundLocalError, s))"
  by (cases test_gen) (simp_all add: read_local_def)

lemma eval_bs_loop_calls_le:
  "beam_search_calls (snd (eval_bs_loop ft model v p result_file rounds test_gen out s))
     \<le> beam_search_calls s + length rounds"
proof (induction rounds arbitrary: test_gen out s)
  case Nil
  then show ?case by simp
next
  case (Cons n rounds)
  show ?case
  proof (cases test_gen)
    case Nil
    then show ?thesis by simp
  next
    case gen: (Cons b test_gen')
    show ?thesis
    proof (cases result_file)
      case None
      with gen show ?thesis by (simp add: read_local_def)
    next
      case (Some f)
      obtain res s1 where run: "eval_bs_batch ft b model v (param_pack_seq p) (param_beam_size p)
          (param_min_out_len p) (param_max_out_len p) (out_len_in_words p) True True s = (res, s1)"
        by (cases "eval_bs_batch ft b model v (param_pack_seq p) (param_beam_size p)
          (param_min_out_len p) (param_max_out_len p) (out_len_in_words p) True True s")
      have "s1 = snd (eval_bs_batch ft b model v (param_pack_seq p) (param_beam_size p)
          (param_min_out_len p) (param_max_out_len p) (out_len_in_words p) True True s)"
        using run by simp
      then have s1: "beam_search_calls s1 \<le> Suc (beam_search_calls s)"
        by (simp add: eval_bs_batch_world)
      show ?thesis
      proof (cases res)
        case (Inl e)
        with gen Some run s1 show ?thesis by (simp add: read_local_def)
      next
        case (Inr r)
        have "beam_search_calls (snd (eval_bs_loop ft model v p result_file rounds test_gen'
            (record_prediction out r) s1)) \<le> beam_search_calls s1 + length rounds"
          by (rule Cons.IH)
        with gen Some run Inr s1 show ?thesis by (simp add: read_local_def)
      qed
    qed
  qed
qed

lemma eval_bs_loop_success_calls:
  "eval_bs_loop ft model v p result_file rounds test_gen out s = (Inr out', s') \<Longrightarrow>
   beam_search_calls s' = beam_search_calls s + length rounds"
proof (induction rounds arbitrary: test_gen out s)
  case Nil
  then show ?case by simp
next
  case (Cons n rounds)
  from eval_bs_loop_step [OF Cons.prems] obtain b test_gen' r s1 where
    run: "eval_bs_batch ft b model v (param_pack_seq p) (param_beam_size p) (param_min_out_len p)
             (param_max_out_len p) (out_len_in_words p) True True s = (Inr r, s1)" and
    rest: "eval_bs_loop ft model v p result_file rounds test_gen' (record_prediction out r) s1 =
             (Inr out', s')"
    by blast
  from Cons.IH [OF rest] eval_bs_batch_success_calls [OF run] show ?case by simp
qed

lemma eval_bs_unfold:
  "eval_bs ft get_data_path float_mul test_set v model p s =
     eval_bs_loop ft model v p
       (if test_save_results p \<and> truthy (model_path_prefix p)
        then Some (TarFile (get_data_path ''results.tgz'')) else None)
       (py_range 1 (py_int (float_mul (test_sample_ratio p) (real (length (pairs test_set)))) + 1))
       (generator test_set 1 v None (pointer p)) (Map.empty, Map.empty)
       ((if test_save_results p \<and> truthy (model_path_prefix p)
         then s\<lparr>opened := opened s @ [get_data_path ''results.tgz'']\<rparr> else s)\<lparr>eval_mode := True\<rparr>)"
  by (simp add: eval_bs_def Let_def)

text \<open>
  A pass that returns leaves the mappings at a mnemonic as they were when no round yields
  that mnemonic, and holds at a mnemonic what the last round that yields it has produced.
\<close>

lemma eval_bs_loop_keeps:
  assumes "eval_bs_loop ft model v p result_file rounds test_gen out s = (Inr out', s')"
    and "\<forall>i<length rounds. \<forall>predicted m prob.
           fst (eval_bs_batch ft (test_gen ! i) model v (param_pack_seq p) (param_beam_size p)
                  (param_min_out_len p) (param_max_out_len p) (out_len_in_words p) True True s0)
             = Inr (predicted, m, prob) \<longrightarrow> m \<noteq> mnem"
  shows "fst out' mnem = fst out mnem \<and> snd out' mnem = snd out mnem"
  using assms
proof (induction rounds arbitrary: test_gen out s)
  case Nil
  then show ?case by simp
next
  case (Cons n rounds)
  from eval_bs_loop_step [OF Cons.prems(1)] obtain b test_gen' r s1 where
    gen: "test_gen = b # test_gen'" and
    run: "eval_bs_batch ft b model v (param_pack_seq p) (param_beam_size p) (param_min_out_len p)
             (param_max_out_len p) (out_len_in_words p) True True s = (Inr r, s1)" and
    rest: "eval_bs_loop ft model v p result_file rounds test_gen' (record_prediction out r) s1 =
             (Inr out', s')"
    by blast
  obtain predicted m prob where r: "r = (predicted, m, prob)" by (cases r)
  have "fst (eval_bs_batch ft (test_gen ! 0) model v (param_pack_seq p) (param_beam_size p)
          (param_min_out_len p) (param_max_out_len p) (out_len_in_words p) True True s0)
          = Inr (predicted, m, prob)"
    using run r gen eval_bs_batch_result_any_world [of ft b model v _ _ _ _ _ True True s0 s]
    by simp
  with Cons.prems(2) have other: "m \<noteq> mnem" by auto
  have later: "\<forall>i<length rounds. \<forall>predicted m prob.
           fst (eval_bs_batch ft (test_gen' ! i) model v (param_pack_seq p) (param_beam_size p)
                  (param_min_out_len p) (param_max_out_len p) (out_len_in_words p) True True s0)
             = Inr (predicted, m, prob) \<longrightarrow> m \<noteq> mnem"
  proof (intro allI impI)
    fix i predicted m prob
    assume "i < length rounds" and "fst (eval_bs_batch ft (test_gen' ! i) model v (param_pack_seq p)
      (param_beam_size p) (param_min_out_len p) (param_max_out_len p) (out_len_in_words p) True True s0)
      = Inr (predicted, m, prob)"
    with Cons.prems(2) [rule_format, of "Suc i" predicted m prob] gen
    show "m \<noteq> mnem" by simp
  qed
  from Cons.IH [OF rest later]
  have "fst out' mnem = fst (record_prediction out r) mnem \<and>
        snd out' mnem = snd (record_prediction out r) mnem" .
  moreover have "fst (record_prediction out r) mnem = fst out mnem \<and>
                 snd (record_prediction out r) mnem = snd out mnem"
    using other r by (cases out) (simp add: record_prediction_def)
  ultimately show ?case by simp
qed

lemma eval_bs_loop_last_write:
  assumes "eval_bs_loop ft model v p result_file rounds test_gen out s = (Inr out', s')"
    and "k < length rounds"
    and "fst (eval_bs_batch ft (test_gen ! k) model v (param_pack_seq p) (param_beam_size p)
                  (param_min_out_len p) (param_max_out_len p) (out_len_in_words p) True True s0)
           = Inr (Some label, mnem, prob)"
    and "\<forall>i. k < i \<and> i < length rounds \<longrightarrow> (\<forall>predicted m prob.
           fst (eval_bs_batch ft (test_gen ! i) model v (param_pack_seq p) (param_beam_size p)
                  (param_min_out_len p) (param_max_out_len p) (out_len_in_words p) True True s0)
             = Inr (predicted, m, prob) \<longrightarrow> m \<noteq> mnem)"
  shows "fst out' mnem = Some label \<and> snd out' mnem = Some prob"
  using assms
proof (induction rounds arbitrary: test_gen out s k)
  case Nil
  then show ?case by simp
next
  case (Cons n rounds)
  from eval_bs_loop_step [OF Cons.prems(1)] obtain b test_gen' r s1 where
    gen: "test_gen = b # test_gen'" and
    run: "eval_bs_batch ft b model v (param_pack_seq p) (param_beam_size p) (param_min_out_len p)
             (param_max_out_len p) (out_len_in_words p) True True s = (Inr r, s1)" and
    rest: "eval_bs_loop ft model v p result_file rounds test_gen' (record_prediction out r) s1 =
             (Inr out', s')"
    by blast
  show ?case
  proof (cases k)
    case 0
    have here: "fst (eval_bs_batch ft b model v (param_pack_seq p) (param_beam_size p)
          (param_min_out_len p) (param_max_out_len p) (out_len_in_words p) True True s)
          = Inr (Some label, mnem, prob)"
      using Cons.prems(3) 0 gen
        eval_bs_batch_result_any_world [of ft b model v _ _ _ _ _ True True s s0]
      by simp
    with run have r: "r = (Some label, mnem, prob)" by simp
    from eval_bs_batch_label_truthy [OF here] have "truthy (Some label)" .
    then have recorded: "fst (record_prediction out r) mnem = Some label \<and>
        snd (record_prediction out r) mnem = Some prob"
      using r by (cases out) (simp add: record_prediction_def)
    have later: "\<forall>i<length rounds. \<forall>predicted m prob.
           fst (eval_bs_batch ft (test_gen' ! i) model v (param_pack_seq p) (param_beam_size p)
                  (param_min_out_len p) (param_max_out_len p) (out_len_in_words p) True True s0)
             = Inr (predicted, m, prob) \<longrightarrow> m \<noteq> mnem"
    proof (intro allI impI)
      fix i predicted m prob
      assume "i < length rounds" and "fst (eval_bs_batch ft (test_gen' ! i) model v (param_pack_seq p)
        (param_beam_size p) (param_min_out_len p) (param_max_out_len p) (out_len_in_words p) True True s0)
        = Inr (predicted, m, prob)"
      with Cons.prems(4) [rule_format, of "Suc i" predicted m prob] gen 0
      show "m \<noteq> mnem" by simp
    qed
    from eval_bs_loop_keeps [OF rest later] recorded show ?thesis by simp
  next
    case (Suc k')
    have k': "k' < length rounds" using Cons.prems(2) Suc by simp
    have at: "fst (eval_bs_batch ft (test_gen' ! k') model v (param_pack_seq p) (param_beam_size p)
                  (param_min_out_len p) (param_max_out_len p) (out_len_in_words p) True True s0)
           = Inr (Some label, mnem, prob)"
      using Cons.prems(3) Suc gen by simp
    have later: "\<forall>i. k' < i \<and> i < length rounds \<longrightarrow> (\<forall>predicted m prob.
           fst (eval_bs_batch ft (test_gen' ! i) model v (param_pack_seq p) (param_beam_size p)
                  (param_min_out_len p) (param_max_out_len p) (out_len_in_words p) True True s0)
             = Inr (predicted, m, prob) \<longrightarrow> m \<noteq> mnem)"
    proof (intro allI impI)
      fix i predicted m prob
      assume "k' < i \<and> i < length rounds" and "fst (eval_bs_batch ft (test_gen' ! i) model v
        (param_pack_seq p) (param_beam_size p) (param_min_out_len p) (param_max_out_len p)
        (out_len_in_words p) True True s0) = Inr (predicted, m, prob)"
      with Cons.prems(4) [rule_format, of "Suc i" predicted m prob] gen Suc
      show "m \<noteq> mnem" by simp
    qed
    from Cons.IH [OF rest k' at later] show ?thesis .
  qed
qed

text \<open>
  With \<^verbatim>\<open>result_file\<close> bound and a generator that yields enough batches, a pass over
  batches on which \<open>eval_bs_batch\<close> returns does return: its mappings are the results of
  these batches recorded in order, and the model has been invoked once per round.
\<close>

lemma eval_bs_loop_returns:
  assumes "result_file \<noteq> None"
    and "length rounds \<le> length test_gen"
    and "\<forall>b \<in> set (take (length rounds) test_gen). \<exists>r.
           fst (eval_bs_batch ft b model v (param_pack_seq p) (param_beam_size p)
                  (param_min_out_len p) (param_max_out_len p) (out_len_in_words p) True True s0) = Inr r"
  shows "eval_bs_loop ft model v p result_file rounds test_gen out s =
           (Inr (foldl record_prediction out
                   (map (\<lambda>b. projr (fst (eval_bs_batch ft b model v (param_pack_seq p)
                           (param_beam_size p) (param_min_out_len p) (param_max_out_len p)
                           (out_len_in_words p) True True s0)))
                      (take (length rounds) test_gen))),
            s\<lparr>beam_search_calls := beam_search_calls s + length rounds\<rparr>)"
  using assms(2,3)
proof (induction rounds arbitrary: test_gen out s)
  case Nil
  then show ?case by simp
next
  case (Cons n rounds)
  from Cons.prems(1) obtain b test_gen' where gen: "test_gen = b # test_gen'"
    by (cases test_gen) auto
  from assms(1) obtain f where bound: "read_local result_file = Inr f"
    by (cases result_file) (auto simp: read_local_def)
  let ?run = "\<lambda>w. eval_bs_batch ft b model v (param_pack_seq p) (param_beam_size p)
      (param_min_out_len p) (param_max_out_len p) (out_len_in_words p) True True w"
  from Cons.prems(2) gen obtain r where r: "fst (?run s0) = Inr r"
    by auto
  then have here: "fst (?run s) = Inr r"
    using eval_bs_batch_result_any_world [of ft b model v _ _ _ _ _ True True s s0] by simp
  then have "length (examples b) = 1"
    by (cases "length (examples b) = 1") (simp_all add: eval_bs_batch_def)
  then have "snd (?run s) = s\<lparr>beam_search_calls := Suc (beam_search_calls s)\<rparr>"
    by (simp add: eval_bs_batch_world)
  with here have run: "?run s = (Inr r, s\<lparr>beam_search_calls := Suc (beam_search_calls s)\<rparr>)"
    by (simp add: prod_eq_iff)
  have len: "length rounds \<le> length test_gen'"
    using Cons.prems(1) gen by simp
  have rest: "\<forall>b \<in> set (take (length rounds) test_gen'). \<exists>r.
           fst (eval_bs_batch ft b model v (param_pack_seq p) (param_beam_size p)
                  (param_min_out_len p) (param_max_out_len p) (out_len_in_words p) True True s0) = Inr r"
    using Cons.prems(2) gen by simp
  show ?case
    using Cons.IH [OF len rest, of "record_prediction out r"
        "s\<lparr>beam_search_calls := Suc (beam_search_calls s)\<rparr>"]
    by (simp add: gen bound run r)
qed

text \<open>
  Passes over the example dataset of three batches.
\<close>

lemma three_pairs: "length (pairs (dataset_of [batch0, batch_sonic, batch_gr])) = 3"
  by (simp add: dataset_of_def batch0_def batch_sonic_def batch_gr_def)

lemma three_batches:
  "generator (dataset_of [batch0, batch_sonic, batch_gr]) batch_size v tgt ext = [batch0, batch_sonic, batch_gr]"
  by (simp add: dataset_of_def)

lemma three_rounds: "py_range 1 (py_int (exact_mul (test_sample_ratio params0) (real 3)) + 1) = [1, 2, 3]"
  by (simp add: params0_def exact_mul_def py_int_def py_range_def upto.simps)

lemma params0_saving: "test_save_results params0" "truthy (model_path_prefix params0)"
  by (simp_all add: params0_def truthy_def)

lemma run_three_batches:
  "eval_bs format_tokens0 (\<lambda>name. name) exact_mul (dataset_of [batch0, batch_sonic, batch_gr]) vocab0 model_by_ext
     params0 world0 =
     (Inr ([''FT'' \<mapsto> ''SONIC RAY'', ''GR'' \<mapsto> ''GAMMA RAY''], [''FT'' \<mapsto> 1, ''GR'' \<mapsto> - 2]),
      \<lparr>beam_search_calls = 3, eval_mode = True, opened = [''results.tgz'']\<rparr>)"
proof -
  have labels: "truthy (Some ''GAMMA RAY'')" "truthy (Some ''SONIC RAY'')"
    by (simp_all add: truthy_def)
  show ?thesis
    unfolding eval_bs_unfold three_pairs three_rounds three_batches
    by (simp add: params0_saving labels read_local_def world0_def record_prediction_def
        run_batch0 run_batch_sonic run_batch_gr)
qed

lemma run_one_token_label:
  "eval_bs_batch format_tokens0 batch0 (model_of [\<lparr>tokens = [4, 2], avg_log_prob = - 1\<rparr>]) vocab0
     pack_seq beam_size min_out_len max_out_len len_in_words True True s =
     (Inl IndexError, s\<lparr>beam_search_calls := Suc (beam_search_calls s)\<rparr>)"
  by (simp add: eval_bs_batch_def batch0_def model_of_def select_hypotheses_def then_do_def
      list_getitem_def math_log_def decode_batch_output_def token_lists_def lookup_word_def
      vocab_getitem_def vocab_len_def vocab0_def oov0_def predicted_label_def format_tokens0_def
      str_split_def isspace_def)


section \<open>Properties of eval\_bs\<close>

text \<open>
  Claim C8, as stated, fails: \<open>eval_bs\<close> need not process
  \<open>floor(test_sample_ratio * number of pairs)\<close> examples. A failure of one example ends the
  pass: on the dataset of three examples with \<open>test_sample_ratio = 1\<close> the count is 3, but
  with a model whose label has a single word the first example raises IndexError, after one
  invocation of the model; and in a configuration that does not save its results the pass
  fails before the model is invoked at all.
\<close>

theorem eval_bs_sample_count_counterexample:
  "nat \<lfloor>exact_mul (test_sample_ratio params0)
          (real (length (pairs (dataset_of [batch0, batch_sonic, batch_gr]))))\<rfloor> = 3 \<and>
   eval_bs format_tokens0 (\<lambda>name. name) exact_mul (dataset_of [batch0, batch_sonic, batch_gr]) vocab0
     (model_of [\<lparr>tokens = [4, 2], avg_log_prob = - 1\<rparr>]) params0 world0 =
     (Inl IndexError, \<lparr>beam_search_calls = 1, eval_mode = True, opened = [''results.tgz'']\<rparr>) \<and>
   eval_bs format_tokens0 (\<lambda>name. name) exact_mul (dataset_of [batch0, batch_sonic, batch_gr]) vocab0
     model_by_ext (params0\<lparr>test_save_results := False\<rparr>) world0 =
     (Inl UnboundLocalError, \<lparr>beam_search_calls = 0, eval_mode = True, opened = []\<rparr>)"
proof (intro conjI)
  show "nat \<lfloor>exact_mul (test_sample_ratio params0)
          (real (length (pairs (dataset_of [batch0, batch_sonic, batch_gr]))))\<rfloor> = 3"
    by (simp add: three_pairs params0_def exact_mul_def)
  show "eval_bs format_tokens0 (\<lambda>name. name) exact_mul (dataset_of [batch0, batch_sonic, batch_gr]) vocab0
     (model_of [\<lparr>tokens = [4, 2], avg_log_prob = - 1\<rparr>]) params0 world0 =
     (Inl IndexError, \<lparr>beam_search_calls = 1, eval_mode = True, opened = [''results.tgz'']\<rparr>)"
    unfolding eval_bs_unfold three_pairs three_rounds three_batches
    by (simp add: params0_saving read_local_def world0_def run_one_token_label)
  have rounds: "py_range 1 (py_int (exact_mul (test_sample_ratio (params0\<lparr>test_save_results := False\<rparr>))
      (real 3)) + 1) = [1, 2, 3]"
    using three_rounds by simp
  show "eval_bs format_tokens0 (\<lambda>name. name) exact_mul (dataset_of [batch0, batch_sonic, batch_gr]) vocab0
     model_by_ext (params0\<lparr>test_save_results := False\<rparr>) world0 =
     (Inl UnboundLocalError, \<lparr>beam_search_calls = 0, eval_mode = True, opened = []\<rparr>)"
    unfolding eval_bs_unfold three_pairs rounds three_batches
    by (simp add: read_local_def world0_def)
qed

text \<open>
  Claim C8, amended. \<open>eval_bs\<close> runs \<open>n = floor(test_sample_ratio * number of pairs)\<close>
  rounds, the product as it is computed. When \<^verbatim>\<open>test_save_results\<close> and
  \<^verbatim>\<open>model_path_prefix\<close> are truthy, the generator yields at least \<open>n\<close> batches and
  \<open>eval_bs_batch\<close> returns on each of the first \<open>n\<close> of them, the pass returns normally
  having processed exactly these \<open>n\<close> examples: its two mappings are their results recorded
  in order, and the model has been invoked \<open>n\<close> times. In every case the model is invoked
  at most \<open>n\<close> times, and exactly \<open>n\<close> times by a pass that returns. For every dataset and
  configuration where the count is at most 0 (in particular for \<open>test_sample_ratio = 0\<close>
  with a product of 0), the pass returns two empty mappings without error and invokes the
  model zero times.
\<close>

theorem eval_bs_sample_count:
  assumes "n = nat \<lfloor>float_mul (test_sample_ratio p) (real (length (pairs test_set)))\<rfloor>"
    and "batches = generator test_set 1 v None (pointer p)"
  shows
  "(test_save_results p \<and> truthy (model_path_prefix p) \<and> n \<le> length batches \<and>
    (\<forall>b \<in> set (take n batches). \<exists>r.
       fst (eval_bs_batch ft b model v (param_pack_seq p) (param_beam_size p) (param_min_out_len p)
              (param_max_out_len p) (out_len_in_words p) True True s) = Inr r) \<longrightarrow>
      fst (eval_bs ft get_data_path float_mul test_set v model p s) =
        Inr (foldl record_prediction (Map.empty, Map.empty)
               (map (\<lambda>b. projr (fst (eval_bs_batch ft b model v (param_pack_seq p) (param_beam_size p)
                       (param_min_out_len p) (param_max_out_len p) (out_len_in_words p) True True s)))
                  (take n batches))) \<and>
      beam_search_calls (snd (eval_bs ft get_data_path float_mul test_set v model p s))
        = beam_search_calls s + n) \<and>
   beam_search_calls (snd (eval_bs ft get_data_path float_mul test_set v model p s))
     \<le> beam_search_calls s + n \<and>
   (\<forall>out. fst (eval_bs ft get_data_path float_mul test_set v model p s) = Inr out \<longrightarrow>
      beam_search_calls (snd (eval_bs ft get_data_path float_mul test_set v model p s))
        = beam_search_calls s + n) \<and>
   (\<lfloor>float_mul (test_sample_ratio p) (real (length (pairs test_set)))\<rfloor> \<le> 0 \<longrightarrow>
      fst (eval_bs ft get_data_path float_mul test_set v model p s) = Inr (Map.empty, Map.empty) \<and>
      beam_search_calls (snd (eval_bs ft get_data_path float_mul test_set v model p s)) = beam_search_calls s)"
proof (intro conjI impI allI)
  let ?x = "float_mul (test_sample_ratio p) (real (length (pairs test_set)))"
  let ?rounds = "py_range 1 (py_int ?x + 1)"
  let ?s2 = "(if test_save_results p \<and> truthy (model_path_prefix p)
         then s\<lparr>opened := opened s @ [get_data_path ''results.tgz'']\<rparr> else s)\<lparr>eval_mode := True\<rparr>"
  have s2: "beam_search_calls ?s2 = beam_search_calls s" by simp
  have len: "length ?rounds = n" using assms(1) by (simp add: rounds_length)
  {
    assume ok: "test_save_results p \<and> truthy (model_path_prefix p) \<and> n \<le> length batches \<and>
      (\<forall>b \<in> set (take n batches). \<exists>r.
         fst (eval_bs_batch ft b model v (param_pack_seq p) (param_beam_size p) (param_min_out_len p)
                (param_max_out_len p) (out_len_in_words p) True True s) = Inr r)"
    let ?file = "Some (TarFile (get_data_path ''results.tgz''))"
    have "eval_bs_loop ft model v p ?file ?rounds batches (Map.empty, Map.empty) ?s2 =
           (Inr (foldl record_prediction (Map.empty, Map.empty)
                   (map (\<lambda>b. projr (fst (eval_bs_batch ft b model v (param_pack_seq p)
                           (param_beam_size p) (param_min_out_len p) (param_max_out_len p)
                           (out_len_in_words p) True True s)))
                      (take (length ?rounds) batches))),
            ?s2\<lparr>beam_search_calls := beam_search_calls ?s2 + length ?rounds\<rparr>)"
    proof (rule eval_bs_loop_returns)
      show "?file \<noteq> None" by simp
      show "length ?rounds \<le> length batches"
        unfolding len using ok by blast
      show "\<forall>b \<in> set (take (length ?rounds) batches). \<exists>r.
         fst (eval_bs_batch ft b model v (param_pack_seq p) (param_beam_size p) (param_min_out_len p)
                (param_max_out_len p) (out_len_in_words p) True True s) = Inr r"
        unfolding len using ok by blast
    qed
    then have run: "eval_bs ft get_data_path float_mul test_set v model p s =
           (Inr (foldl record_prediction (Map.empty, Map.empty)
                   (map (\<lambda>b. projr (fst (eval_bs_batch ft b model v (param_pack_seq p)
                           (param_beam_size p) (param_min_out_len p) (param_max_out_len p)
                           (out_len_in_words p) True True s)))
                      (take n batches))),
            ?s2\<lparr>beam_search_calls := beam_search_calls ?s2 + n\<rparr>)"
      unfolding eval_bs_unfold assms(2) [symmetric] len using ok by simp
    show "fst (eval_bs ft get_data_path float_mul test_set v model p s) =
        Inr (foldl record_prediction (Map.empty, Map.empty)
               (map (\<lambda>b. projr (fst (eval_bs_batch ft b model v (param_pack_seq p) (param_beam_size p)
                       (param_min_out_len p) (param_max_out_len p) (out_len_in_words p) True True s)))
                  (take n batches)))"
      unfolding run by simp
    show "beam_search_calls (snd (eval_bs ft get_data_path float_mul test_set v model p s))
        = beam_search_calls s + n"
      unfolding run by simp
  }
  show "beam_search_calls (snd (eval_bs ft get_data_path float_mul test_set v model p s))
     \<le> beam_search_calls s + n"
    unfolding eval_bs_unfold
    using eval_bs_loop_calls_le [of ft model v p _ ?rounds _ _ ?s2] by (simp only: s2 len)
  {
    fix out
    assume "fst (eval_bs ft get_data_path float_mul test_set v model p s) = Inr out"
    then have "eval_bs ft get_data_path float_mul test_set v model p s =
        (Inr out, snd (eval_bs ft get_data_path float_mul test_set v model p s))"
      by (simp add: prod_eq_iff)
    then show "beam_search_calls (snd (eval_bs ft get_data_path float_mul test_set v model p s))
        = beam_search_calls s + n"
      unfolding eval_bs_unfold
      using eval_bs_loop_success_calls [of ft model v p _ ?rounds _ _ ?s2 out] by (simp only: s2 len)
  }
  {
    assume "\<lfloor>?x\<rfloor> \<le> 0"
    then have "length ?rounds = 0" by (simp add: rounds_length)
    then have empty: "?rounds = []" by simp
    show "fst (eval_bs ft get_data_path float_mul test_set v model p s) = Inr (Map.empty, Map.empty)"
      unfolding eval_bs_unfold empty by simp
    show "beam_search_calls (snd (eval_bs ft get_data_path float_mul test_set v model p s)) = beam_search_calls s"
      unfolding eval_bs_unfold empty by simp
  }
qed

theorem eval_bs_sample_count_witness:
  "fst (eval_bs format_tokens0 (\<lambda>name. name) exact_mul (dataset_of [batch0, batch_sonic, batch_gr])
      vocab0 model_by_ext (params0\<lparr>test_sample_ratio := 3 / 4\<rparr>) world0) =
     Inr ([''FT'' \<mapsto> ''SONIC RAY''], [''FT'' \<mapsto> 1]) \<and>
   beam_search_calls (snd (eval_bs format_tokens0 (\<lambda>name. name) exact_mul
      (dataset_of [batch0, batch_sonic, batch_gr]) vocab0 model_by_ext
      (params0\<lparr>test_sample_ratio := 3 / 4\<rparr>) world0)) = 2 \<and>
   fst (eval_bs format_tokens0 (\<lambda>name. name) exact_mul (dataset_of [batch0, batch_sonic, batch_gr])
      vocab0 model_by_ext (params0\<lparr>test_sample_ratio := 0\<rparr>) world0) = Inr (Map.empty, Map.empty) \<and>
   beam_search_calls (snd (eval_bs format_tokens0 (\<lambda>name. name) exact_mul
      (dataset_of [batch0, batch_sonic, batch_gr]) vocab0 model_by_ext
      (params0\<lparr>test_sample_ratio := 0\<rparr>) world0)) = 0"
proof -
  let ?ds = "dataset_of [batch0, batch_sonic, batch_gr]"
  let ?p = "params0\<lparr>test_sample_ratio := 3 / 4\<rparr>"
  let ?q = "params0\<lparr>test_sample_ratio := 0\<rparr>"
  let ?run = "eval_bs format_tokens0 (\<lambda>name. name) exact_mul ?ds vocab0 model_by_ext ?p world0"
  have "\<lfloor>9 / 4 :: real\<rfloor> = 2" by (simp add: floor_eq_iff)
  then have count: "(2::nat) = nat \<lfloor>exact_mul (test_sample_ratio ?p) (real (length (pairs ?ds)))\<rfloor>"
    by (simp add: three_pairs exact_mul_def)
  have none: "\<lfloor>exact_mul (test_sample_ratio ?q) (real (length (pairs ?ds)))\<rfloor> \<le> 0"
    by (simp add: exact_mul_def)
  have zero: "(0::nat) = nat \<lfloor>exact_mul (test_sample_ratio ?q) (real (length (pairs ?ds)))\<rfloor>"
    by (simp add: exact_mul_def)
  have batches: "[batch0, batch_sonic, batch_gr] = generator ?ds 1 vocab0 None (pointer ?p)"
    "[batch0, batch_sonic, batch_gr] = generator ?ds 1 vocab0 None (pointer ?q)"
    by (simp_all add: three_batches)
  have start: "beam_search_calls world0 = 0"
    by (simp add: world0_def)
  have labels: "truthy (Some ''GAMMA RAY'')" "truthy (Some ''SONIC RAY'')"
    by (simp_all add: truthy_def)
  have ok: "test_save_results ?p \<and> truthy (model_path_prefix ?p) \<and>
      2 \<le> length [batch0, batch_sonic, batch_gr] \<and>
      (\<forall>b \<in> set (take 2 [batch0, batch_sonic, batch_gr]). \<exists>r.
         fst (eval_bs_batch format_tokens0 b model_by_ext vocab0 (param_pack_seq ?p) (param_beam_size ?p)
                (param_min_out_len ?p) (param_max_out_len ?p) (out_len_in_words ?p) True True world0)
           = Inr r)"
    by (simp add: params0_saving run_batch0 run_batch_sonic numeral_2_eq_2)
  from eval_bs_sample_count [where float_mul = exact_mul and ft = format_tokens0 and model = model_by_ext
      and s = world0 and get_data_path = "\<lambda>name. name", OF count batches(1)] ok
  have "fst ?run =
        Inr (foldl record_prediction (Map.empty, Map.empty)
               (map (\<lambda>b. projr (fst (eval_bs_batch format_tokens0 b model_by_ext vocab0 (param_pack_seq ?p)
                       (param_beam_size ?p) (param_min_out_len ?p) (param_max_out_len ?p)
                       (out_len_in_words ?p) True True world0)))
                  (take 2 [batch0, batch_sonic, batch_gr]))) \<and>
      beam_search_calls (snd ?run) = beam_search_calls world0 + 2"
    by blast
  then have result: "fst ?run = Inr ([''FT'' \<mapsto> ''SONIC RAY''], [''FT'' \<mapsto> 1])"
    and calls: "beam_search_calls (snd ?run) = 2"
    by (simp_all add: start numeral_2_eq_2 run_batch0 run_batch_sonic record_prediction_def labels)
  from eval_bs_sample_count [where float_mul = exact_mul and ft = format_tokens0 and model = model_by_ext
      and s = world0 and get_data_path = "\<lambda>name. name", OF zero batches(2)] none
  have "fst (eval_bs format_tokens0 (\<lambda>name. name) exact_mul ?ds vocab0 model_by_ext ?q world0) =
          Inr (Map.empty, Map.empty) \<and>
        beam_search_calls (snd (eval_bs format_tokens0 (\<lambda>name. name) exact_mul ?ds vocab0 model_by_ext ?q
          world0)) = beam_search_calls world0"
    by blast
  with result calls start show ?thesis by simp
qed

text \<open>
  Claim C9. In \<open>eval_bs\<close>, when two processed examples \<open>j < k\<close> yield the same mnemonic
  identifier, both with a predicted label, the later example's label and score are what both
  output mappings hold for that mnemonic (no example after \<open>k\<close> yielding it again): the
  last write wins, and nothing of the earlier example is kept. A result with an absent
  predicted label leaves both mappings unchanged.
\<close>

theorem eval_bs_last_write_wins:
  assumes "eval_bs ft get_data_path float_mul test_set v model p s = (Inr (output, prob_output), s')"
    and "n = nat \<lfloor>float_mul (test_sample_ratio p) (real (length (pairs test_set)))\<rfloor>"
    and "batches = generator test_set 1 v None (pointer p)"
    and "j < k" and "k < n"
    and "fst (eval_bs_batch ft (batches ! j) model v (param_pack_seq p) (param_beam_size p)
                (param_min_out_len p) (param_max_out_len p) (out_len_in_words p) True True s)
           = Inr (Some label_j, mnem, prob_j)"
    and "fst (eval_bs_batch ft (batches ! k) model v (param_pack_seq p) (param_beam_size p)
                (param_min_out_len p) (param_max_out_len p) (out_len_in_words p) True True s)
           = Inr (Some label_k, mnem, prob_k)"
    and "\<forall>i. k < i \<and> i < n \<longrightarrow> (\<forall>predicted m prob.
           fst (eval_bs_batch ft (batches ! i) model v (param_pack_seq p) (param_beam_size p)
                  (param_min_out_len p) (param_max_out_len p) (out_len_in_words p) True True s)
             = Inr (predicted, m, prob) \<longrightarrow> m \<noteq> mnem)"
  shows "output mnem = Some label_k \<and> prob_output mnem = Some prob_k \<and>
         record_prediction (output, prob_output) (None, mnem', prob') = (output, prob_output)"
proof -
  let ?rounds = "py_range 1 (py_int (float_mul (test_sample_ratio p) (real (length (pairs test_set)))) + 1)"
  have len: "length ?rounds = n"
    using assms(2) by (simp add: rounds_length)
  from assms(1) obtain result_file s2 where
    loop: "eval_bs_loop ft model v p result_file ?rounds batches (Map.empty, Map.empty) s2 =
             (Inr (output, prob_output), s')"
    unfolding eval_bs_unfold assms(3) by blast
  have "fst (output, prob_output) mnem = Some label_k \<and> snd (output, prob_output) mnem = Some prob_k"
    using eval_bs_loop_last_write [OF loop, of k s label_k mnem prob_k] assms(5,7,8) len by simp
  then show ?thesis by (simp add: record_prediction_absent)
qed

theorem eval_bs_last_write_wins_witness:
  "\<exists>output prob_output s'.
     eval_bs format_tokens0 (\<lambda>name. name) exact_mul (dataset_of [batch0, batch_sonic, batch_gr]) vocab0 model_by_ext
       params0 world0 = (Inr (output, prob_output), s') \<and>
     output ''FT'' = Some ''SONIC RAY'' \<and> prob_output ''FT'' = Some 1"
proof -
  let ?ds = "dataset_of [batch0, batch_sonic, batch_gr]"
  let ?output = "[''FT'' \<mapsto> ''SONIC RAY'', ''GR'' \<mapsto> ''GAMMA RAY'']"
  let ?prob_output = "[''FT'' \<mapsto> 1, ''GR'' \<mapsto> - 2 :: real]"
  let ?s' = "\<lparr>beam_search_calls = 3, eval_mode = True, opened = [''results.tgz'']\<rparr>"
  have run: "eval_bs format_tokens0 (\<lambda>name. name) exact_mul ?ds vocab0 model_by_ext params0 world0 =
      (Inr (?output, ?prob_output), ?s')"
    by (rule run_three_batches)
  have n: "(3::nat) = nat \<lfloor>exact_mul (test_sample_ratio params0) (real (length (pairs ?ds)))\<rfloor>"
    by (simp add: three_pairs params0_def exact_mul_def)
  have batches: "[batch0, batch_sonic, batch_gr] = generator ?ds 1 vocab0 None (pointer params0)"
    by (simp add: three_batches)
  have first: "fst (eval_bs_batch format_tokens0 ([batch0, batch_sonic, batch_gr] ! 0) model_by_ext vocab0
      (param_pack_seq params0) (param_beam_size params0) (param_min_out_len params0)
      (param_max_out_len params0) (out_len_in_words params0) True True world0) =
      Inr (Some ''GAMMA RAY'', ''FT'', - 2)"
    by (simp add: run_batch0)
  have second: "fst (eval_bs_batch format_tokens0 ([batch0, batch_sonic, batch_gr] ! 1) model_by_ext vocab0
      (param_pack_seq params0) (param_beam_size params0) (param_min_out_len params0)
      (param_max_out_len params0) (out_len_in_words params0) True True world0) =
      Inr (Some ''SONIC RAY'', ''FT'', 1)"
    by (simp add: run_batch_sonic)
  have later: "\<forall>i. 1 < i \<and> i < 3 \<longrightarrow> (\<forall>predicted m prob.
      fst (eval_bs_batch format_tokens0 ([batch0, batch_sonic, batch_gr] ! i) model_by_ext vocab0
        (param_pack_seq params0) (param_beam_size params0) (param_min_out_len params0)
        (param_max_out_len params0) (out_len_in_words params0) True True world0) =
        Inr (predicted, m, prob) \<longrightarrow> m \<noteq> ''FT'')"
  proof (intro allI impI)
    fix i :: nat and predicted m prob
    assume "1 < i \<and> i < 3"
    then have "i = 2" by simp
    moreover assume "fst (eval_bs_batch format_tokens0 ([batch0, batch_sonic, batch_gr] ! i) model_by_ext
        vocab0 (param_pack_seq params0) (param_beam_size params0) (param_min_out_len params0)
        (param_max_out_len params0) (out_len_in_words params0) True True world0) =
        Inr (predicted, m, prob)"
    ultimately show "m \<noteq> ''FT''" by (auto simp: run_batch_gr)
  qed
  have "(0::nat) < 1" and "(1::nat) < 3" by simp_all
  from eval_bs_last_write_wins [where float_mul = exact_mul, OF run n batches this first second later]
  have "?output ''FT'' = Some ''SONIC RAY'' \<and> ?prob_output ''FT'' = Some 1"
    by blast
  with run show ?thesis by blast
qed

text \<open>
  Claim C10. \<open>eval_bs\<close> binds \<^verbatim>\<open>result_file\<close> only when both \<^verbatim>\<open>test_save_results\<close> and
  \<^verbatim>\<open>model_path_prefix\<close> are truthy, and reads it for every example. For every configuration
  where one of the two is falsy and the sample count is at least 1, the pass fails before
  the model is invoked and before any result is recorded, and no mappings are returned; the
  error is the name-resolution error (UnboundLocalError) whenever the generator yields a
  first batch (an exhausted generator would raise StopIteration before the read).
\<close>

theorem eval_bs_unbound_result_file:
  assumes "\<not> test_save_results p \<or> \<not> truthy (model_path_prefix p)"
    and "1 \<le> \<lfloor>float_mul (test_sample_ratio p) (real (length (pairs test_set)))\<rfloor>"
  shows "(\<exists>e. fst (eval_bs ft get_data_path float_mul test_set v model p s) = Inl e) \<and>
         beam_search_calls (snd (eval_bs ft get_data_path float_mul test_set v model p s)) = beam_search_calls s \<and>
         (generator test_set 1 v None (pointer p) \<noteq> [] \<longrightarrow>
            fst (eval_bs ft get_data_path float_mul test_set v model p s) = Inl UnboundLocalError)"
proof -
  let ?x = "float_mul (test_sample_ratio p) (real (length (pairs test_set)))"
  let ?rounds = "py_range 1 (py_int ?x + 1)"
  have "length ?rounds = nat \<lfloor>?x\<rfloor>" by (rule rounds_length)
  with assms(2) have "?rounds \<noteq> []" by auto
  then obtain n rounds where rounds: "?rounds = n # rounds" by (cases ?rounds) auto
  have none: "(if test_save_results p \<and> truthy (model_path_prefix p)
        then Some (TarFile (get_data_path ''results.tgz'')) else None) = None"
    using assms(1) by auto
  show ?thesis
    unfolding eval_bs_unfold none rounds eval_bs_loop_unbound using assms(1) by auto
qed

theorem eval_bs_unbound_result_file_witness:
  "fst (eval_bs format_tokens0 (\<lambda>name. name) exact_mul (dataset_of [batch0, batch_sonic, batch_gr]) vocab0
          model_by_ext (params0\<lparr>test_save_results := False\<rparr>) world0) = Inl UnboundLocalError \<and>
   beam_search_calls (snd (eval_bs format_tokens0 (\<lambda>name. name) exact_mul (dataset_of [batch0, batch_sonic, batch_gr])
          vocab0 model_by_ext (params0\<lparr>test_save_results := False\<rparr>) world0)) = 0"
proof -
  let ?ds = "dataset_of [batch0, batch_sonic, batch_gr]"
  let ?p = "params0\<lparr>test_save_results := False\<rparr>"
  have off: "\<not> test_save_results ?p \<or> \<not> truthy (model_path_prefix ?p)"
    by simp
  have count: "1 \<le> \<lfloor>exact_mul (test_sample_ratio ?p) (real (length (pairs ?ds)))\<rfloor>"
    by (simp add: three_pairs params0_def exact_mul_def)
  have gen: "generator ?ds 1 vocab0 None (pointer ?p) \<noteq> []"
    by (simp add: three_batches)
  have start: "beam_search_calls world0 = 0"
    by (simp add: world0_def)
  from eval_bs_unbound_result_file [where float_mul = exact_mul and ft = format_tokens0
      and get_data_path = "\<lambda>name. name" and v = vocab0 and model = model_by_ext and s = world0,
      OF off count]
    gen start
  show ?thesis by simp
qed

end
